theory Spec2Isabelle
  imports Main "HOL-Library.AList" "HOL-Library.Multiset"
begin

section \<open>Data model (pkg/models)\<close>

text \<open>
  A value of Go's \<open>interface{}\<close> as \<open>encoding/json\<close> decodes it: the task payload and
  the patch values are trees of this shape. Request bodies are kept as the tree that
  \<open>json.Marshal\<close> renders; response bodies are bytes.
\<close>

datatype json =
    JNull
  | JBool bool
  | JNum int
  | JStr string
  | JArr "json list"
  | JObj "(string \<times> json) list"

text \<open>
  \<open>time.Time\<close>: the instant (nanoseconds since the epoch) together with its wall-clock
  reading, which is what \<open>Format\<close> prints. \<open>Before\<close> compares instants.
\<close>

record gotime =
  unixNano :: int
  t_year :: nat
  t_month :: nat
  t_day :: nat
  t_hour :: nat
  t_minute :: nat
  t_second :: nat

record SCIMName =
  Formatted :: string
  FamilyName :: string
  GivenName :: string

record SCIMEmail =
  em_Value :: string
  em_Type :: string
  em_Primary :: bool

record UserRecord =
  ur_SCIMID :: string
  ur_Email :: string
  ur_Status :: string
  ur_Name :: SCIMName
  ur_Title :: string
  ur_Organization :: string
  ur_DeactivationTimestamp :: "gotime option"

record GroupRecord =
  gr_SCIMID :: string

record JobTask =
  jt_Type :: string
  jt_Target :: string
  jt_Data :: json
  jt_Status :: string

record SCIMUser =
  su_ID :: string
  su_UserName :: string
  su_Name :: SCIMName
  su_Emails :: "SCIMEmail list"
  su_Active :: bool
  su_Title :: string
  su_Organization :: string

record SCIMGroup =
  sg_ID :: string
  sg_DisplayName :: string

record SCIMPatchOp =
  Op :: string
  Path :: string
  Value :: "json option"

text \<open>
  A Go map with string keys: an association list with one entry per key. \<open>m[k]\<close> is
  \<open>map_of m k\<close>, \<open>m[k] = v\<close> is \<open>AList.update k v m\<close>, \<open>delete(m, k)\<close> is
  \<open>AList.delete k m\<close>.
\<close>

type_synonym 'v gomap = "(string \<times> 'v) list"

section \<open>Errors\<close>

datatype err =
    Canceled
  | DeadlineExceeded
  | NetError string
  | ApiStatus int
  | ReadBodyFailed string
  | NonRetryableStatus int string
  | RetriesExhausted nat "err option"
  | BadRequest string
  | UnmarshalFailed string
  | UserNotFound string
  | UpdateDataNotMap
  | NoUpdateOps string
  | GroupDataNotString
  | GroupNotFound string
  | InvalidOpType string
  | UnknownTaskType string
  | ReadFileFailed string
  | WriteFileFailed string
  | ConfigMissing
  | Panic string
  | OsExit nat

section \<open>The world outside the program\<close>

datatype 'a disk_file = Absent | Corrupt | Holds 'a

record request =
  Method :: string
  URL :: string
  Body :: "json option"
  Header :: "(string \<times> string) list"

datatype body_read = ReadError string | BodyBytes string

datatype http_outcome = DoError string | Response int body_read

datatype net_event = Exchange request http_outcome | Sleep int

datatype ctx_state = CtxLive | CtxCanceled | CtxDeadlineExceeded

datatype write_outcome = WriteOk | WriteFailedUntouched | WriteFailedTruncated

text \<open>
  The variadic arguments of \<open>logAndAudit\<close>: strings and error values. The audit line's
  \<open>Details\<close> is the message followed by the \<open>%v\<close> rendering of the arguments; the
  model keeps the two parts side by side.
\<close>

datatype audit_arg = ArgStr string | ArgErr err

record AuditEvent =
  ae_Timestamp :: gotime
  ae_UseCase :: string
  ae_Target :: string
  ae_Status :: string
  ae_Details :: string
  ae_Args :: "audit_arg list"

text \<open>
  What the program can change: the files of the data directory, the audit log, and the
  trace of what it did on the network. \<open>tick\<close> counts the observations of the
  environment made so far; every observation reads its oracle at the current tick and
  advances it, so the environment may answer differently each time.
\<close>

record world =
  tick :: nat
  net_trace :: "net_event list"
  users_file :: "UserRecord gomap disk_file"
  groups_file :: "GroupRecord gomap disk_file"
  queue_file :: "JobTask list disk_file"
  archive :: "(string \<times> JobTask list disk_file) list"
  audit_log :: "AuditEvent list"

text \<open>
  What the program cannot change: the configuration, the source task file, and the
  oracles for the remote service, the context, the clock, the random source, the disk,
  the URL parser of \<open>net/http\<close>, the iteration order of Go maps and the decoders of
  \<open>encoding/json\<close> for response bodies.
\<close>

record env =
  api_url :: string
  api_key :: string
  data_dir :: string
  source_file :: "JobTask list disk_file"
  respond :: "nat \<Rightarrow> request \<Rightarrow> http_outcome"
  ctx :: "nat \<Rightarrow> ctx_state"
  clock :: "nat \<Rightarrow> gotime"
  rand :: "nat \<Rightarrow> nat"
  disk :: "nat \<Rightarrow> write_outcome"
  url_ok :: "string \<Rightarrow> bool"
  range_order :: "nat \<Rightarrow> nat \<Rightarrow> nat"
  decode_users :: "string \<Rightarrow> (int \<times> SCIMUser option list) option"
  decode_groups :: "string \<Rightarrow> (int \<times> SCIMGroup option list) option"
  filepath_Join :: "string \<Rightarrow> string \<Rightarrow> string"

definition bump :: "world \<Rightarrow> world" where
  "bump w = w\<lparr>tick := Suc (tick w)\<rparr>"

definition ctx_Err :: "env \<Rightarrow> world \<Rightarrow> err option \<times> world" where
  "ctx_Err E w =
     (case ctx E (tick w) of
        CtxLive \<Rightarrow> (None, bump w)
      | CtxCanceled \<Rightarrow> (Some Canceled, bump w)
      | CtxDeadlineExceeded \<Rightarrow> (Some DeadlineExceeded, bump w))"

definition HTTPClient_Do :: "env \<Rightarrow> request \<Rightarrow> world \<Rightarrow> http_outcome \<times> world" where
  "HTTPClient_Do E req w =
     (let out = respond E (tick w) req
      in (out, bump (w\<lparr>net_trace := net_trace w @ [Exchange req out]\<rparr>)))"

definition rand_Intn :: "env \<Rightarrow> nat \<Rightarrow> world \<Rightarrow> nat \<times> world" where
  "rand_Intn E n w = (rand E (tick w) mod n, bump w)"

definition time_Sleep :: "int \<Rightarrow> world \<Rightarrow> world" where
  "time_Sleep d w = w\<lparr>net_trace := net_trace w @ [Sleep d]\<rparr>"

definition time_Now :: "env \<Rightarrow> world \<Rightarrow> gotime \<times> world" where
  "time_Now E w = (clock E (tick w), bump w)"

section \<open>Transport (pkg/smartsuite, doRequestWithRetry)\<close>

definition maxRetries :: nat where
  "maxRetries = 4"

definition millisecond :: int where
  "millisecond = 1000000"

definition second_ns :: int where
  "second_ns = 1000 * millisecond"

definition baseBackoff :: int where
  "baseBackoff = 1 * second_ns"

text \<open>
  \<open>float64(baseBackoff) * math.Pow(2, float64(attempt))\<close>, converted back to a
  \<open>time.Duration\<close>: for the attempts the loop makes (below 4) the product is an
  integer far below \<open>2 ^ 53\<close>, so the floating-point value is the exact one.
\<close>

definition backoff :: "nat \<Rightarrow> int" where
  "backoff attempt = baseBackoff * 2 ^ attempt"

definition Header_Set :: "string \<Rightarrow> string \<Rightarrow> (string \<times> string) list \<Rightarrow> (string \<times> string) list" where
  "Header_Set k v hs = AList.update k v hs"

definition cloneReq :: "env \<Rightarrow> request \<Rightarrow> request" where
  "cloneReq E req =
     req\<lparr>Header :=
        Header_Set ''Accept'' ''application/scim+json''
          (Header_Set ''Content-Type'' ''application/scim+json''
             (Header_Set ''Authorization'' (''Bearer '' @ api_key E) (Header req)))\<rparr>"

function doRequestLoop ::
  "env \<Rightarrow> request \<Rightarrow> nat \<Rightarrow> err option \<Rightarrow> world \<Rightarrow> (err + string) \<times> world" where
  "doRequestLoop E req attempt lastErr w =
     (if attempt < maxRetries then
        (case ctx_Err E w of
           (Some e, w1) \<Rightarrow> (Inl e, w1)
         | (None, w1) \<Rightarrow>
             (case HTTPClient_Do E (cloneReq E req) w1 of
                (DoError e, w2) \<Rightarrow>
                  doRequestLoop E req (Suc attempt) (Some (NetError e))
                    (time_Sleep (500 * millisecond) w2)
              | (Response st rd, w2) \<Rightarrow>
                  if st = 429 \<or> st \<ge> 500 then
                    (case rand_Intn E 1000 w2 of
                       (j, w3) \<Rightarrow>
                         doRequestLoop E req (Suc attempt) (Some (ApiStatus st))
                           (time_Sleep (backoff attempt + int j * millisecond) w3))
                  else
                    (case rd of
                       ReadError e \<Rightarrow> (Inl (ReadBodyFailed e), w2)
                     | BodyBytes body \<Rightarrow>
                         if st = 204 then (Inr [], w2)
                         else if st < 200 \<or> st \<ge> 300 then (Inl (NonRetryableStatus st body), w2)
                         else (Inr body, w2))))
      else (Inl (RetriesExhausted maxRetries lastErr), w))"
  by pat_completeness auto
termination
  by (relation "measure (\<lambda>(E, req, attempt, lastErr, w). maxRetries - attempt)") auto

declare doRequestLoop.simps [simp del]

definition doRequestWithRetry :: "env \<Rightarrow> request \<Rightarrow> world \<Rightarrow> (err + string) \<times> world" where
  "doRequestWithRetry E req w = doRequestLoop E req 0 None w"

section \<open>Local mirror store (pkg/store)\<close>

text \<open>
  A write consults the disk: it succeeds, fails before touching the file, or fails after
  truncating it.
\<close>

definition os_WriteFile :: "env \<Rightarrow> 'a disk_file \<Rightarrow> 'a \<Rightarrow> world \<Rightarrow> bool \<times> 'a disk_file" where
  "os_WriteFile E old new w =
     (case disk E (tick w) of
        WriteOk \<Rightarrow> (True, Holds new)
      | WriteFailedUntouched \<Rightarrow> (False, old)
      | WriteFailedTruncated \<Rightarrow> (False, Corrupt))"

definition NewStore :: "env \<Rightarrow> string \<Rightarrow> world \<Rightarrow> err option \<times> world" where
  "NewStore E dataDir w =
     (case disk E (tick w) of
        WriteOk \<Rightarrow> (None, bump w)
      | _ \<Rightarrow> (Some (WriteFileFailed dataDir), bump w))"

definition LoadUsers :: "world \<Rightarrow> err + UserRecord gomap" where
  "LoadUsers w =
     (case users_file w of
        Absent \<Rightarrow> Inr []
      | Corrupt \<Rightarrow> Inl (ReadFileFailed ''users.json'')
      | Holds users \<Rightarrow> Inr users)"

definition SaveUsers :: "env \<Rightarrow> UserRecord gomap \<Rightarrow> world \<Rightarrow> err option \<times> world" where
  "SaveUsers E users w =
     (case os_WriteFile E (users_file w) users w of
        (ok, f) \<Rightarrow>
          (if ok then None else Some (WriteFileFailed ''users.json''),
           bump (w\<lparr>users_file := f\<rparr>)))"

definition LoadGroups :: "world \<Rightarrow> err + GroupRecord gomap" where
  "LoadGroups w =
     (case groups_file w of
        Absent \<Rightarrow> Inr []
      | Corrupt \<Rightarrow> Inl (ReadFileFailed ''groups.json'')
      | Holds groups \<Rightarrow> Inr groups)"

definition SaveGroups :: "env \<Rightarrow> GroupRecord gomap \<Rightarrow> world \<Rightarrow> err option \<times> world" where
  "SaveGroups E groups w =
     (case os_WriteFile E (groups_file w) groups w of
        (ok, f) \<Rightarrow>
          (if ok then None else Some (WriteFileFailed ''groups.json''),
           bump (w\<lparr>groups_file := f\<rparr>)))"

definition AppendToAuditLog :: "env \<Rightarrow> AuditEvent \<Rightarrow> world \<Rightarrow> err option \<times> world" where
  "AppendToAuditLog E event w =
     (case disk E (tick w) of
        WriteOk \<Rightarrow> (None, bump (w\<lparr>audit_log := audit_log w @ [event]\<rparr>))
      | _ \<Rightarrow> (Some (WriteFileFailed ''audit.log''), bump w))"

section \<open>Audit helper (cmd, logAndAudit)\<close>

text \<open>
  The result's first component says whether the process has exited: level \<open>fatal\<close>
  calls \<open>os.Exit(1)\<close> before the audit line is written. A failed append is only warned
  about.
\<close>

definition logAndAudit ::
  "env \<Rightarrow> string \<Rightarrow> string \<Rightarrow> string \<Rightarrow> string \<Rightarrow> audit_arg list \<Rightarrow> world \<Rightarrow> bool \<times> world" where
  "logAndAudit E useCase target level details args w =
     (if level = ''fatal'' then (True, w)
      else
        (case time_Now E w of
           (now, w1) \<Rightarrow>
             (False,
              snd (AppendToAuditLog E
                     \<lparr>ae_Timestamp = now, ae_UseCase = useCase, ae_Target = target,
                        ae_Status = level, ae_Details = details, ae_Args = args\<rparr> w1))))"

text \<open>
  \<open>for k, v := range m\<close> visits the entries in an order the runtime picks: at each step
  the oracle chooses one of the entries not yet visited.
\<close>

function pick_order :: "(nat \<Rightarrow> nat) \<Rightarrow> 'a list \<Rightarrow> 'a list" where
  "pick_order f xs =
     (if xs = [] then []
      else
        (let i = f (length xs) mod length xs
         in xs ! i # pick_order f (take i xs @ drop (Suc i) xs)))"
  by pat_completeness auto
termination
proof (relation "measure (\<lambda>(f, xs). length xs)", goal_cases)
  case 1
  show ?case by simp
next
  case (2 f xs i)
  then have "i < length xs" by simp
  then show ?case by auto
qed

declare pick_order.simps [simp del]

definition range_map :: "env \<Rightarrow> 'v gomap \<Rightarrow> world \<Rightarrow> (string \<times> 'v) list \<times> world" where
  "range_map E m w = (pick_order (range_order E (tick w)) m, bump w)"

section \<open>Directory client (pkg/smartsuite): mutations\<close>

definition NewClient :: "string \<Rightarrow> string \<Rightarrow> err + unit" where
  "NewClient baseURL apiKey =
     (if baseURL = [] \<or> apiKey = [] then Inl ConfigMissing else Inr ())"

definition http_NewRequest :: "env \<Rightarrow> string \<Rightarrow> string \<Rightarrow> json option \<Rightarrow> err + request" where
  "http_NewRequest E method url body =
     (if url_ok E url then Inr \<lparr>Method = method, URL = url, Body = body, Header = []\<rparr>
      else Inl (BadRequest url))"

text \<open>
  \<open>json.Marshal\<close> of a \<open>SCIMPatchOp\<close>, by its struct tags: \<open>op\<close> always, \<open>path\<close>
  unless it is the empty string, \<open>value\<close> unless the interface is nil.
\<close>

definition marshal_SCIMPatchOp :: "SCIMPatchOp \<Rightarrow> json" where
  "marshal_SCIMPatchOp p =
     JObj ([(''op'', JStr (Op p))]
           @ (if Path p = [] then [] else [(''path'', JStr (Path p))])
           @ (case Value p of None \<Rightarrow> [] | Some v \<Rightarrow> [(''value'', v)]))"

definition patch_payload :: "SCIMPatchOp list \<Rightarrow> json" where
  "patch_payload operations =
     JObj [(''Operations'', JArr (map marshal_SCIMPatchOp operations)),
           (''schemas'', JArr [JStr ''urn:ietf:params:scim:api:messages:2.0:PatchOp''])]"

definition PatchUser :: "env \<Rightarrow> string \<Rightarrow> SCIMPatchOp list \<Rightarrow> world \<Rightarrow> err option \<times> world" where
  "PatchUser E scimID operations w =
     (case http_NewRequest E ''PATCH'' (api_url E @ ''/Users/'' @ scimID)
             (Some (patch_payload operations)) of
        Inl e \<Rightarrow> (Some e, w)
      | Inr req \<Rightarrow>
          (case doRequestWithRetry E req w of
             (Inl e, w1) \<Rightarrow> (Some e, w1)
           | (Inr body, w1) \<Rightarrow> (None, w1)))"

definition PatchGroup :: "env \<Rightarrow> string \<Rightarrow> SCIMPatchOp list \<Rightarrow> world \<Rightarrow> err option \<times> world" where
  "PatchGroup E scimID operations w =
     (case http_NewRequest E ''PATCH'' (api_url E @ ''/Groups/'' @ scimID)
             (Some (patch_payload operations)) of
        Inl e \<Rightarrow> (Some e, w)
      | Inr req \<Rightarrow>
          (case doRequestWithRetry E req w of
             (Inl e, w1) \<Rightarrow> (Some e, w1)
           | (Inr body, w1) \<Rightarrow> (None, w1)))"

definition DeleteUser :: "env \<Rightarrow> string \<Rightarrow> world \<Rightarrow> err option \<times> world" where
  "DeleteUser E scimID w =
     (case http_NewRequest E ''DELETE'' (api_url E @ ''/Users/'' @ scimID) None of
        Inl e \<Rightarrow> (Some e, w)
      | Inr req \<Rightarrow>
          (case doRequestWithRetry E req w of
             (Inl e, w1) \<Rightarrow> (Some e, w1)
           | (Inr body, w1) \<Rightarrow> (None, w1)))"

section \<open>Batch processor (cmd/processBatch.go)\<close>

text \<open>A decoded JSON \<open>null\<close> is the nil interface.\<close>

definition iface :: "json \<Rightarrow> json option" where
  "iface v = (if v = JNull then None else Some v)"

definition update_field :: "string \<times> json \<Rightarrow> UserRecord \<times> string \<Rightarrow> UserRecord \<times> string" where
  "update_field kv acc =
     (case kv of
        (key, value) \<Rightarrow>
          (case acc of
             (record, newUserName) \<Rightarrow>
               if key = ''title'' then
                 (case value of JStr title \<Rightarrow> (record\<lparr>ur_Title := title\<rparr>, newUserName)
                  | _ \<Rightarrow> (record, newUserName))
               else if key = ''userName'' then
                 (case value of JStr un \<Rightarrow> (record, un) | _ \<Rightarrow> (record, newUserName))
               else (record, newUserName)))"

definition handleUpdateTask ::
  "env \<Rightarrow> UserRecord gomap \<Rightarrow> JobTask \<Rightarrow> world \<Rightarrow> err option \<times> UserRecord gomap \<times> world" where
  "handleUpdateTask E userStore task w =
     (case map_of userStore (jt_Target task) of
        None \<Rightarrow> (Some (UserNotFound (jt_Target task)), userStore, w)
      | Some record \<Rightarrow>
          (case jt_Data task of
             JObj dataMap \<Rightarrow>
               (case range_map E dataMap w of
                  (entries, w1) \<Rightarrow>
                    let operations =
                          map (\<lambda>(key, value). \<lparr>Op = ''replace'', Path = key, Value = iface value\<rparr>)
                            entries
                    in if length operations = 0 then
                         (Some (NoUpdateOps (jt_Target task)), userStore, w1)
                       else
                         (case PatchUser E (ur_SCIMID record) operations w1 of
                            (Some e, w2) \<Rightarrow> (Some e, userStore, w2)
                          | (None, w2) \<Rightarrow>
                              (case range_map E dataMap w2 of
                                 (entries2, w3) \<Rightarrow>
                                   (case fold update_field entries2 (record, []) of
                                      (record', newUserName) \<Rightarrow>
                                        let userStore' =
                                              (if newUserName \<noteq> [] \<and> newUserName \<noteq> jt_Target task
                                               then AList.update newUserName record'
                                                      (AList.delete (jt_Target task) userStore)
                                               else AList.update (jt_Target task) record' userStore)
                                        in (case SaveUsers E userStore' w3 of
                                              (r, w4) \<Rightarrow> (r, userStore', w4))))))
           | _ \<Rightarrow> (Some UpdateDataNotMap, userStore, w)))"

definition handleDeactivateTask ::
  "env \<Rightarrow> UserRecord gomap \<Rightarrow> JobTask \<Rightarrow> world \<Rightarrow> err option \<times> UserRecord gomap \<times> world" where
  "handleDeactivateTask E userStore task w =
     (case map_of userStore (jt_Target task) of
        None \<Rightarrow> (Some (UserNotFound (jt_Target task)), userStore, w)
      | Some record \<Rightarrow>
          (case PatchUser E (ur_SCIMID record)
                  [\<lparr>Op = ''replace'', Path = ''active'', Value = Some (JBool False)\<rparr>] w of
             (Some e, w1) \<Rightarrow> (Some e, userStore, w1)
           | (None, w1) \<Rightarrow>
               (case time_Now E w1 of
                  (now, w2) \<Rightarrow>
                    let userStore' =
                          AList.update (jt_Target task)
                            (record\<lparr>ur_DeactivationTimestamp := Some now, ur_Status := ''inactive''\<rparr>)
                            userStore
                    in (case SaveUsers E userStore' w2 of
                          (r, w3) \<Rightarrow> (r, userStore', w3)))))"

definition handleGroupMembershipTask ::
  "env \<Rightarrow> UserRecord gomap \<Rightarrow> GroupRecord gomap \<Rightarrow> JobTask \<Rightarrow> string \<Rightarrow> world
     \<Rightarrow> err option \<times> world" where
  "handleGroupMembershipTask E userStore groupStore task opType w =
     (case map_of userStore (jt_Target task) of
        None \<Rightarrow> (Some (UserNotFound (jt_Target task)), w)
      | Some user \<Rightarrow>
          (case jt_Data task of
             JStr groupName \<Rightarrow>
               (case map_of groupStore groupName of
                  None \<Rightarrow> (Some (GroupNotFound groupName), w)
                | Some grp \<Rightarrow>
                    if opType = ''add'' then
                      PatchGroup E (gr_SCIMID grp)
                        [\<lparr>Op = ''add'', Path = ''members'',
                           Value = Some (JArr [JObj [(''value'', JStr (ur_SCIMID user))]])\<rparr>] w
                    else if opType = ''remove'' then
                      PatchGroup E (gr_SCIMID grp)
                        [\<lparr>Op = ''remove'',
                           Path = ''members[value eq '' @ [CHR 0x22] @ ur_SCIMID user
                                  @ [CHR 0x22] @ '']'',
                           Value = None\<rparr>] w
                    else (Some (InvalidOpType opType), w))
           | _ \<Rightarrow> (Some GroupDataNotString, w)))"

definition saveQueue :: "env \<Rightarrow> JobTask list \<Rightarrow> world \<Rightarrow> world" where
  "saveQueue E queue w =
     (case os_WriteFile E (queue_file w) queue w of
        (ok, f) \<Rightarrow> bump (w\<lparr>queue_file := f\<rparr>))"

definition dispatch ::
  "env \<Rightarrow> UserRecord gomap \<Rightarrow> GroupRecord gomap \<Rightarrow> JobTask \<Rightarrow> world
     \<Rightarrow> err option \<times> UserRecord gomap \<times> world" where
  "dispatch E userStore groupStore task w =
     (if jt_Type task = ''update'' then handleUpdateTask E userStore task w
      else if jt_Type task = ''deactivate'' then handleDeactivateTask E userStore task w
      else if jt_Type task = ''add-to-group'' then
        (case handleGroupMembershipTask E userStore groupStore task ''add'' w of
           (r, w1) \<Rightarrow> (r, userStore, w1))
      else if jt_Type task = ''remove-from-group'' then
        (case handleGroupMembershipTask E userStore groupStore task ''remove'' w of
           (r, w1) \<Rightarrow> (r, userStore, w1))
      else (Some (UnknownTaskType (jt_Type task)), userStore, w))"

text \<open>
  How the loop over the queue ends: it ran through, the run returned on the shutdown
  signal, or the process exited.
\<close>

datatype loop_end = Finished | Halted | Died

text \<open>
  The loop \<open>for i := range jobQueue\<close>: \<open>seen\<close> holds the entries before index \<open>i\<close>
  as they now are, the second list the entries from \<open>i\<close> on. The user store is the one
  map every handler mutates.
\<close>

fun processQueue ::
  "env \<Rightarrow> JobTask list \<Rightarrow> JobTask list \<Rightarrow> UserRecord gomap \<Rightarrow> GroupRecord gomap \<Rightarrow> nat \<Rightarrow> bool
     \<Rightarrow> world \<Rightarrow> loop_end \<times> JobTask list \<times> UserRecord gomap \<times> nat \<times> bool \<times> world" where
  "processQueue E seen [] userStore groupStore tasksProcessed hasChanges w =
     (Finished, seen, userStore, tasksProcessed, hasChanges, w)"
| "processQueue E seen (task # rest) userStore groupStore tasksProcessed hasChanges w =
     (case ctx_Err E w of
        (Some e, w1) \<Rightarrow>
          (Halted, seen @ task # rest, userStore, tasksProcessed, hasChanges,
           saveQueue E (seen @ task # rest) w1)
      | (None, w1) \<Rightarrow>
          if jt_Status task \<noteq> ''pending'' then
            processQueue E (seen @ [task]) rest userStore groupStore tasksProcessed hasChanges w1
          else
            (case dispatch E userStore groupStore task w1 of
               (taskErr, userStore', w2) \<Rightarrow>
                 (case (case taskErr of
                          Some e \<Rightarrow>
                            (task\<lparr>jt_Status := ''failed''\<rparr>,
                             logAndAudit E ''ProcessBatch'' (jt_Target task) ''error''
                               ''Task failed'' [ArgStr ''error'', ArgErr e] w2)
                        | None \<Rightarrow>
                            (task\<lparr>jt_Status := ''completed''\<rparr>,
                             logAndAudit E ''ProcessBatch'' (jt_Target task) ''info''
                               (''Task '' @ [CHR 0x27] @ jt_Type task @ [CHR 0x27]
                                  @ '' completed successfully.'') [] w2)) of
                    (task', exited, w3) \<Rightarrow>
                      if exited then
                        (Died, seen @ task' # rest, userStore', tasksProcessed, True, w3)
                      else
                        let tasksProcessed' = Suc tasksProcessed;
                            w4 = (if tasksProcessed' mod 5 = 0
                                  then saveQueue E (seen @ task' # rest) w3 else w3)
                        in processQueue E (seen @ [task']) rest userStore' groupStore
                             tasksProcessed' True w4)))"

datatype outcome = Returned | Exited nat

definition load_source :: "env \<Rightarrow> world \<Rightarrow> err + JobTask list" where
  "load_source E w =
     (case queue_file w of
        Absent \<Rightarrow>
          (case source_file E of
             Holds tasks \<Rightarrow> Inr (map (\<lambda>t. t\<lparr>jt_Status := ''pending''\<rparr>) tasks)
           | _ \<Rightarrow> Inl (ReadFileFailed ''from-file''))
      | Holds queue \<Rightarrow> Inr queue
      | Corrupt \<Rightarrow> Inl (ReadFileFailed ''job_queue.json''))"

function Itoa :: "nat \<Rightarrow> string" where
  "Itoa n = (if n < 10 then [char_of (48 + n)] else Itoa (n div 10) @ [char_of (48 + n mod 10)])"
  by pat_completeness auto
termination
  by (relation "measure id") auto

declare Itoa.simps [simp del]

text \<open>A number printed in at least \<open>width\<close> digits, as the layout fields of \<open>Format\<close> are.\<close>

definition zero_pad :: "nat \<Rightarrow> nat \<Rightarrow> string" where
  "zero_pad width n = replicate (width - length (Itoa n)) (CHR ''0'') @ Itoa n"

text \<open>\<open>t.Format("20060102-150405")\<close>\<close>

definition Format_stamp :: "gotime \<Rightarrow> string" where
  "Format_stamp t =
     zero_pad 4 (t_year t) @ zero_pad 2 (t_month t) @ zero_pad 2 (t_day t) @ ''-''
       @ zero_pad 2 (t_hour t) @ zero_pad 2 (t_minute t) @ zero_pad 2 (t_second t)"

definition os_Rename :: "env \<Rightarrow> string \<Rightarrow> world \<Rightarrow> err option \<times> world" where
  "os_Rename E newName w =
     (case disk E (tick w) of
        WriteOk \<Rightarrow>
          (if queue_file w = Absent then (Some (ReadFileFailed ''job_queue.json''), bump w)
           else (None, bump (w\<lparr>archive := (newName, queue_file w) # archive w,
                                queue_file := Absent\<rparr>)))
      | _ \<Rightarrow> (Some (WriteFileFailed newName), bump w))"

definition dataDir :: "env \<Rightarrow> string" where
  "dataDir E = (if data_dir E = [] then ''./data'' else data_dir E)"

definition jobQueueFile :: "env \<Rightarrow> string" where
  "jobQueueFile E = filepath_Join E (dataDir E) ''job_queue.json''"

definition allCompleted :: "JobTask list \<Rightarrow> bool" where
  "allCompleted jobQueue = list_all (\<lambda>task. jt_Status task = ''completed'') jobQueue"

text \<open>
  The run up to the loop: the queue (from the checkpoint if there is one, from the
  source file otherwise), the client, the store and the two mirrors. Every failure here
  is \<open>os.Exit(1)\<close>.
\<close>

definition startBatch ::
  "env \<Rightarrow> world \<Rightarrow> world + (JobTask list \<times> UserRecord gomap \<times> GroupRecord gomap \<times> world)" where
  "startBatch E w =
     (case load_source E w of
        Inl e \<Rightarrow> Inl w
      | Inr jobQueue \<Rightarrow>
          (case NewClient (api_url E) (api_key E) of
             Inl e \<Rightarrow> Inl w
           | Inr client \<Rightarrow>
               (case NewStore E (dataDir E) w of
                  (Some e, w1) \<Rightarrow> Inl w1
                | (None, w1) \<Rightarrow>
                    (case LoadUsers w1 of
                       Inl e \<Rightarrow> Inl w1
                     | Inr userStore \<Rightarrow>
                         (case LoadGroups w1 of
                            Inl e \<Rightarrow> Inl w1
                          | Inr groupStore \<Rightarrow> Inr (jobQueue, userStore, groupStore, w1))))))"

text \<open>
  The run after the loop: the final save when a task changed state, then the archival of
  the queue.
\<close>

definition finishBatch :: "env \<Rightarrow> JobTask list \<Rightarrow> bool \<Rightarrow> world \<Rightarrow> outcome \<times> world" where
  "finishBatch E jobQueue hasChanges w =
     (let w1 = (if hasChanges then saveQueue E jobQueue w else w)
      in if allCompleted jobQueue \<and> length jobQueue > 0 then
           (case time_Now E w1 of
              (now, w2) \<Rightarrow>
                (Returned,
                 snd (os_Rename E (jobQueueFile E @ ''.completed_'' @ Format_stamp now) w2)))
         else (Returned, w1))"

definition processBatchCmd :: "env \<Rightarrow> world \<Rightarrow> outcome \<times> world" where
  "processBatchCmd E w =
     (case startBatch E w of
        Inl w1 \<Rightarrow> (Exited 1, w1)
      | Inr (jobQueue, userStore, groupStore, w1) \<Rightarrow>
          (case processQueue E [] jobQueue userStore groupStore 0 False w1 of
             (Halted, queue, us, n, hasChanges, w2) \<Rightarrow> (Returned, w2)
           | (Died, queue, us, n, hasChanges, w2) \<Rightarrow> (Exited 1, w2)
           | (Finished, queue, us, n, hasChanges, w2) \<Rightarrow> finishBatch E queue hasChanges w2))"

section \<open>Directory client (pkg/smartsuite): paginated listing\<close>

text \<open>
  The loop \<open>for { ... }\<close> of \<open>GetUsers\<close> has no bound of its own: it ends when a page is
  empty or the users collected reach the total the server reports. The oracle
  \<open>decode_users\<close> is \<open>json.Unmarshal\<close> on a page: the total and the resources, each
  decoded into a \<open>SCIMUser\<close> or not decodable (and then skipped). A base URL that
  \<open>url.Parse\<close> rejects leaves a nil pointer, which the next line dereferences.
\<close>

partial_function (option) GetUsers_loop ::
  "env \<Rightarrow> nat \<Rightarrow> SCIMUser list \<Rightarrow> world \<Rightarrow> ((err + SCIMUser list) \<times> world) option" where
  "GetUsers_loop E startIndex allUsers w =
     (if \<not> url_ok E (api_url E @ ''/Users'') then
        Some (Inl (Panic ''nil pointer dereference''), w)
      else
        (case http_NewRequest E ''GET''
                (api_url E @ ''/Users?count=100&startIndex='' @ Itoa startIndex) None of
           Inl e \<Rightarrow> Some (Inl e, w)
         | Inr req \<Rightarrow>
             (case doRequestWithRetry E req w of
                (Inl e, w1) \<Rightarrow> Some (Inl e, w1)
              | (Inr body, w1) \<Rightarrow>
                  (case decode_users E body of
                     None \<Rightarrow> Some (Inl (UnmarshalFailed ''user list response''), w1)
                   | Some (totalResults, resources) \<Rightarrow>
                       if length resources = 0 then Some (Inr allUsers, w1)
                       else
                         (let allUsers' = allUsers @ [u. Some u \<leftarrow> resources]
                          in if int (length allUsers') \<ge> totalResults then Some (Inr allUsers', w1)
                             else GetUsers_loop E (startIndex + length resources) allUsers' w1)))))"

definition GetUsers :: "env \<Rightarrow> world \<Rightarrow> ((err + SCIMUser list) \<times> world) option" where
  "GetUsers E w = GetUsers_loop E 1 [] w"

partial_function (option) GetGroups_loop ::
  "env \<Rightarrow> nat \<Rightarrow> SCIMGroup list \<Rightarrow> world \<Rightarrow> ((err + SCIMGroup list) \<times> world) option" where
  "GetGroups_loop E startIndex allGroups w =
     (if \<not> url_ok E (api_url E @ ''/Groups'') then
        Some (Inl (Panic ''nil pointer dereference''), w)
      else
        (case http_NewRequest E ''GET''
                (api_url E @ ''/Groups?count=100&startIndex='' @ Itoa startIndex) None of
           Inl e \<Rightarrow> Some (Inl e, w)
         | Inr req \<Rightarrow>
             (case doRequestWithRetry E req w of
                (Inl e, w1) \<Rightarrow> Some (Inl e, w1)
              | (Inr body, w1) \<Rightarrow>
                  (case decode_groups E body of
                     None \<Rightarrow> Some (Inl (UnmarshalFailed ''group list response''), w1)
                   | Some (totalResults, resources) \<Rightarrow>
                       if length resources = 0 then Some (Inr allGroups, w1)
                       else
                         (let allGroups' = allGroups @ [g. Some g \<leftarrow> resources]
                          in if int (length allGroups') \<ge> totalResults then Some (Inr allGroups', w1)
                             else GetGroups_loop E (startIndex + length resources) allGroups' w1)))))"

definition GetGroups :: "env \<Rightarrow> world \<Rightarrow> ((err + SCIMGroup list) \<times> world) option" where
  "GetGroups E w = GetGroups_loop E 1 [] w"

section \<open>Reconciler (cmd, refresh)\<close>

text \<open>
  The snapshot built from the fetched users. \<open>u.Emails[0]\<close> on a user without an
  e-mail address is an index out of range.
\<close>

fun build_user_state :: "SCIMUser list \<Rightarrow> UserRecord gomap \<Rightarrow> err + UserRecord gomap" where
  "build_user_state [] newState = Inr newState"
| "build_user_state (u # rest) newState =
     (if su_UserName u = [] then build_user_state rest newState
      else
        (case su_Emails u of
           [] \<Rightarrow> Inl (Panic ''index out of range'')
         | email # _ \<Rightarrow>
             build_user_state rest
               (AList.update (su_UserName u)
                  \<lparr>ur_SCIMID = su_ID u, ur_Email = em_Value email,
                     ur_Status = (if su_Active u then ''active'' else ''inactive''),
                     ur_Name = su_Name u, ur_Title = su_Title u,
                     ur_Organization = su_Organization u,
                     ur_DeactivationTimestamp = None\<rparr>
                  newState)))"

fun build_group_state :: "SCIMGroup list \<Rightarrow> GroupRecord gomap \<Rightarrow> GroupRecord gomap" where
  "build_group_state [] newState = newState"
| "build_group_state (g # rest) newState =
     (if sg_DisplayName g = [] then build_group_state rest newState
      else build_group_state rest
             (AList.update (sg_DisplayName g) \<lparr>gr_SCIMID = sg_ID g\<rparr> newState))"

text \<open>
  The calls of \<open>logAndAudit\<close> one entry of a diff loop makes, in order: target, message
  and arguments.
\<close>

type_synonym audit_call = "string \<times> string \<times> audit_arg list"

definition user_deltas :: "UserRecord gomap \<Rightarrow> string \<times> UserRecord \<Rightarrow> audit_call list" where
  "user_deltas oldState kv =
     (case kv of
        (eppn, newUser) \<Rightarrow>
          (case map_of oldState eppn of
             None \<Rightarrow>
               [(eppn, ''User created in SmartSuite directly.'',
                 [ArgStr ''scim_id'', ArgStr (ur_SCIMID newUser)])]
           | Some oldUser \<Rightarrow>
               (if ur_Status oldUser \<noteq> ur_Status newUser then
                  [(eppn, ''User status changed outside of mediator.'',
                    [ArgStr ''from_status'', ArgStr (ur_Status oldUser),
                     ArgStr ''to_status'', ArgStr (ur_Status newUser)])]
                else [])
               @ (if ur_Title oldUser \<noteq> ur_Title newUser then
                    [(eppn, ''User title changed outside of mediator.'',
                      [ArgStr ''from_title'', ArgStr (ur_Title oldUser),
                       ArgStr ''to_title'', ArgStr (ur_Title newUser)])]
                  else [])
               @ (if ur_Name oldUser \<noteq> ur_Name newUser then
                    [(eppn, ''User name changed outside of mediator.'', [])]
                  else [])))"

definition user_deleted :: "UserRecord gomap \<Rightarrow> string \<times> UserRecord \<Rightarrow> audit_call list" where
  "user_deleted newState kv =
     (case kv of
        (eppn, oldUser) \<Rightarrow>
          (case map_of newState eppn of
             None \<Rightarrow>
               [(eppn, ''User deleted in SmartSuite directly.'',
                 [ArgStr ''scim_id'', ArgStr (ur_SCIMID oldUser)])]
           | Some _ \<Rightarrow> []))"

definition group_created :: "GroupRecord gomap \<Rightarrow> string \<times> GroupRecord \<Rightarrow> audit_call list" where
  "group_created oldState kv =
     (case kv of
        (name, newGroup) \<Rightarrow>
          (case map_of oldState name of
             None \<Rightarrow>
               [(name, ''Group created in SmartSuite directly.'',
                 [ArgStr ''scim_id'', ArgStr (gr_SCIMID newGroup)])]
           | Some _ \<Rightarrow> []))"

definition group_deleted :: "GroupRecord gomap \<Rightarrow> string \<times> GroupRecord \<Rightarrow> audit_call list" where
  "group_deleted newState kv =
     (case kv of
        (name, oldGroup) \<Rightarrow>
          (case map_of newState name of
             None \<Rightarrow>
               [(name, ''Group deleted in SmartSuite directly.'',
                 [ArgStr ''scim_id'', ArgStr (gr_SCIMID oldGroup)])]
           | Some _ \<Rightarrow> []))"

fun audit_each :: "env \<Rightarrow> string \<Rightarrow> string \<Rightarrow> audit_call list \<Rightarrow> world \<Rightarrow> bool \<times> world" where
  "audit_each E useCase level [] w = (False, w)"
| "audit_each E useCase level (c # rest) w =
     (case c of
        (target, details, args) \<Rightarrow>
          (case logAndAudit E useCase target level details args w of
             (True, w1) \<Rightarrow> (True, w1)
           | (False, w1) \<Rightarrow> audit_each E useCase level rest w1))"

definition reconcileUsers :: "env \<Rightarrow> world \<Rightarrow> (err option \<times> world) option" where
  "reconcileUsers E w =
     (case LoadUsers w of
        Inl e \<Rightarrow> Some (Some e, w)
      | Inr oldState \<Rightarrow>
          (case GetUsers E w of
             None \<Rightarrow> None
           | Some (Inl e, w1) \<Rightarrow> Some (Some e, w1)
           | Some (Inr scimUsers, w1) \<Rightarrow>
               (case build_user_state scimUsers [] of
                  Inl e \<Rightarrow> Some (Some e, w1)
                | Inr newState \<Rightarrow>
                    (case range_map E newState w1 of
                       (newEntries, w2) \<Rightarrow>
                         (case audit_each E ''Refresh: Delta Found'' ''info''
                                 (concat (map (user_deltas oldState) newEntries)) w2 of
                            (True, w3) \<Rightarrow> Some (Some (OsExit 1), w3)
                          | (False, w3) \<Rightarrow>
                              (case range_map E oldState w3 of
                                 (oldEntries, w4) \<Rightarrow>
                                   (case audit_each E ''Refresh: Delta Found'' ''info''
                                           (concat (map (user_deleted newState) oldEntries)) w4 of
                                      (True, w5) \<Rightarrow> Some (Some (OsExit 1), w5)
                                    | (False, w5) \<Rightarrow> Some (SaveUsers E newState w5))))))))"

definition reconcileGroups :: "env \<Rightarrow> world \<Rightarrow> (err option \<times> world) option" where
  "reconcileGroups E w =
     (case LoadGroups w of
        Inl e \<Rightarrow> Some (Some e, w)
      | Inr oldState \<Rightarrow>
          (case GetGroups E w of
             None \<Rightarrow> None
           | Some (Inl e, w1) \<Rightarrow> Some (Some e, w1)
           | Some (Inr scimGroups, w1) \<Rightarrow>
               (let newState = build_group_state scimGroups []
                in (case range_map E newState w1 of
                      (newEntries, w2) \<Rightarrow>
                        (case audit_each E ''Refresh: Delta Found'' ''info''
                                (concat (map (group_created oldState) newEntries)) w2 of
                           (True, w3) \<Rightarrow> Some (Some (OsExit 1), w3)
                         | (False, w3) \<Rightarrow>
                             (case range_map E oldState w3 of
                                (oldEntries, w4) \<Rightarrow>
                                  (case audit_each E ''Refresh: Delta Found'' ''info''
                                          (concat (map (group_deleted newState) oldEntries)) w4 of
                                     (True, w5) \<Rightarrow> Some (Some (OsExit 1), w5)
                                   | (False, w5) \<Rightarrow> Some (SaveGroups E newState w5))))))))"

text \<open>
  What \<open>refreshCmd\<close> does with an error of a reconciliation: return on the shutdown
  signal, exit with status 1 otherwise. A panic ends the process with status 2.
\<close>

definition refresh_failed :: "err \<Rightarrow> outcome" where
  "refresh_failed e =
     (case e of
        Canceled \<Rightarrow> Returned
      | DeadlineExceeded \<Rightarrow> Returned
      | Panic _ \<Rightarrow> Exited 2
      | OsExit n \<Rightarrow> Exited n
      | _ \<Rightarrow> Exited 1)"

definition refreshCmd :: "env \<Rightarrow> world \<Rightarrow> (outcome \<times> world) option" where
  "refreshCmd E w =
     (case NewClient (api_url E) (api_key E) of
        Inl e \<Rightarrow> Some (Exited 1, w)
      | Inr client \<Rightarrow>
          (case NewStore E (dataDir E) w of
             (Some e, w1) \<Rightarrow> Some (Exited 1, w1)
           | (None, w1) \<Rightarrow>
               (case reconcileUsers E w1 of
                  None \<Rightarrow> None
                | Some (Some e, w2) \<Rightarrow> Some (refresh_failed e, w2)
                | Some (None, w2) \<Rightarrow>
                    (case reconcileGroups E w2 of
                       None \<Rightarrow> None
                     | Some (Some e, w3) \<Rightarrow> Some (refresh_failed e, w3)
                     | Some (None, w3) \<Rightarrow> Some (Returned, w3)))))"

section \<open>Cleanup of deactivated users (cmd, cleanup-users)\<close>

definition hour_ns :: int where
  "hour_ns = 3600 * second_ns"

definition gracePeriod :: int where
  "gracePeriod = - 7 * 24 * hour_ns"

text \<open>
  \<open>record.DeactivationTimestamp != nil && record.DeactivationTimestamp.Before(cutoffTime)\<close>,
  with the cutoff given as an instant.
\<close>

definition past_grace :: "int \<Rightarrow> UserRecord \<Rightarrow> bool" where
  "past_grace cutoff r =
     (case ur_DeactivationTimestamp r of
        None \<Rightarrow> False
      | Some ts \<Rightarrow> unixNano ts < cutoff)"

definition collect_candidate :: "int \<Rightarrow> string \<times> UserRecord \<Rightarrow> string gomap \<Rightarrow> string gomap" where
  "collect_candidate cutoff kv usersToDelete =
     (case kv of
        (eppn, r) \<Rightarrow>
          if past_grace cutoff r then AList.update eppn (ur_SCIMID r) usersToDelete
          else usersToDelete)"

fun cleanup_loop ::
  "env \<Rightarrow> (string \<times> string) list \<Rightarrow> UserRecord gomap \<Rightarrow> string list \<Rightarrow> world
     \<Rightarrow> bool \<times> UserRecord gomap \<times> string list \<times> world" where
  "cleanup_loop E [] userStore failedDeletions w = (False, userStore, failedDeletions, w)"
| "cleanup_loop E (c # rest) userStore failedDeletions w =
     (case c of
        (eppn, scimID) \<Rightarrow>
          (case ctx_Err E w of
             (Some e, w1) \<Rightarrow> (False, userStore, failedDeletions, w1)
           | (None, w1) \<Rightarrow>
               (case logAndAudit E ''CleanupUser'' eppn ''info'' ''Attempting to delete user.''
                       [ArgStr ''scim_id'', ArgStr scimID] w1 of
                  (True, w2) \<Rightarrow> (True, userStore, failedDeletions, w2)
                | (False, w2) \<Rightarrow>
                    (case DeleteUser E scimID w2 of
                       (Some e, w3) \<Rightarrow>
                         (case logAndAudit E ''CleanupUser'' eppn ''error''
                                 ''Failed to delete user via API'' [ArgStr ''error'', ArgErr e] w3 of
                            (True, w4) \<Rightarrow> (True, userStore, failedDeletions, w4)
                          | (False, w4) \<Rightarrow>
                              cleanup_loop E rest userStore (failedDeletions @ [eppn]) w4)
                     | (None, w3) \<Rightarrow>
                         (case logAndAudit E ''CleanupUser'' eppn ''info''
                                 ''Successfully deleted user.'' [] w3 of
                            (True, w4) \<Rightarrow> (True, AList.delete eppn userStore, failedDeletions, w4)
                          | (False, w4) \<Rightarrow>
                              cleanup_loop E rest (AList.delete eppn userStore)
                                failedDeletions w4)))))"

definition cleanupUsersCmd :: "env \<Rightarrow> world \<Rightarrow> outcome \<times> world" where
  "cleanupUsersCmd E w =
     (case NewClient (api_url E) (api_key E) of
        Inl e \<Rightarrow> (Exited 1, w)
      | Inr client \<Rightarrow>
          (case NewStore E (dataDir E) w of
             (Some e, w1) \<Rightarrow> (Exited 1, w1)
           | (None, w1) \<Rightarrow>
               (case LoadUsers w1 of
                  Inl e \<Rightarrow> (Exited 1, w1)
                | Inr userStore \<Rightarrow>
                    (case time_Now E w1 of
                       (now, w2) \<Rightarrow>
                         (case range_map E userStore w2 of
                            (entries, w3) \<Rightarrow>
                              let cutoffTime = unixNano now + gracePeriod;
                                  usersToDelete = fold (collect_candidate cutoffTime) entries []
                              in if length usersToDelete = 0 then (Returned, w3)
                                 else
                                   (case range_map E usersToDelete w3 of
                                      (candidates, w4) \<Rightarrow>
                                        (case cleanup_loop E candidates userStore [] w4 of
                                           (True, us, failed, w5) \<Rightarrow> (Exited 1, w5)
                                         | (False, us, failed, w5) \<Rightarrow>
                                             (case SaveUsers E us w5 of
                                                (Some e, w6) \<Rightarrow> (Exited 1, w6)
                                              | (None, w6) \<Rightarrow> (Returned, w6)))))))))"

section \<open>Vocabulary of the properties\<close>

text \<open>
  The two outcomes after which the loop of \<open>doRequestWithRetry\<close> goes on: a transport
  error, and a response with status 429 or at least 500. \<open>cause\<close> is the error the loop
  keeps as \<open>lastErr\<close> for such an outcome.
\<close>

definition retryable :: "http_outcome \<Rightarrow> bool" where
  "retryable out = (case out of DoError e \<Rightarrow> True | Response st rd \<Rightarrow> st = 429 \<or> st \<ge> 500)"

definition cause :: "http_outcome \<Rightarrow> err" where
  "cause out = (case out of DoError e \<Rightarrow> NetError e | Response st rd \<Rightarrow> ApiStatus st)"

text \<open>
  The delay slept after a retryable outcome of the attempt with the given 0-based index:
  half a second after a transport error; after a retryable status the deterministic
  component \<open>backoff attempt\<close> plus a jitter of less than 1000 milliseconds.
\<close>

definition retry_sleep :: "nat \<Rightarrow> http_outcome \<Rightarrow> int \<Rightarrow> bool" where
  "retry_sleep attempt out d =
     (case out of
        DoError e \<Rightarrow> d = 500 * millisecond
      | Response st rd \<Rightarrow> (\<exists>j<1000. d = backoff attempt + int j * millisecond))"

text \<open>The files of the data directory are the same in two worlds.\<close>

definition same_files :: "world \<Rightarrow> world \<Rightarrow> bool" where
  "same_files w w' \<longleftrightarrow>
     users_file w' = users_file w \<and> groups_file w' = groups_file w \<and>
     queue_file w' = queue_file w \<and> archive w' = archive w \<and> audit_log w' = audit_log w"

section \<open>Concrete environments\<close>

text \<open>
  A cooperative environment: every request is answered 200, the context stays live, the
  disk accepts every write. The others differ from it in the remote service only.
\<close>

definition env0 :: env where
  "env0 =
     \<lparr>api_url = ''https://dir.example/scim/v2'', api_key = ''secret'', data_dir = ''/var/mediator'',
        source_file = Absent,
        respond = (\<lambda>t r. Response 200 (BodyBytes ''{}'')),
        ctx = (\<lambda>t. CtxLive),
        clock = (\<lambda>t. \<lparr>unixNano = 1700000000000000000 + int t, t_year = 2023, t_month = 11,
                          t_day = 14, t_hour = 22, t_minute = 13, t_second = 20\<rparr>),
        rand = (\<lambda>t. 7 * t + 3),
        disk = (\<lambda>t. WriteOk),
        url_ok = (\<lambda>u. True),
        range_order = (\<lambda>t n. t),
        decode_users = (\<lambda>b. None),
        decode_groups = (\<lambda>b. None),
        filepath_Join = (\<lambda>d f. d @ ''/'' @ f)\<rparr>"

definition world0 :: world where
  "world0 =
     \<lparr>tick = 0, net_trace = [], users_file = Absent, groups_file = Absent,
        queue_file = Absent, archive = [], audit_log = []\<rparr>"

definition req0 :: request where
  "req0 = \<lparr>Method = ''DELETE'', URL = ''https://dir.example/scim/v2/Users/abc-123'',
            Body = None, Header = []\<rparr>"

definition env_503 :: env where
  "env_503 = env0\<lparr>respond := (\<lambda>t r. Response 503 (BodyBytes ''busy''))\<rparr>"

definition env_204_cut :: env where
  "env_204_cut = env0\<lparr>respond := (\<lambda>t r. Response 204 (ReadError ''unexpected EOF''))\<rparr>"

definition env_404 :: env where
  "env_404 = env0\<lparr>respond := (\<lambda>t r. Response 404 (BodyBytes ''no such user''))\<rparr>"

text \<open>
  Only the observation counter and the network trace differ between two worlds, and the
  trace has only grown.
\<close>

definition net_only :: "world \<Rightarrow> world \<Rightarrow> bool" where
  "net_only w w' \<longleftrightarrow> (\<exists>t evs. w' = w\<lparr>tick := t, net_trace := net_trace w @ evs\<rparr>)"

text \<open>
  A mirror with two users and one group, and a checkpoint in which both tasks are
  already completed.
\<close>

definition alice :: UserRecord where
  "alice = \<lparr>ur_SCIMID = ''abc-123'', ur_Email = ''alice@example.org'', ur_Status = ''active'',
             ur_Name = \<lparr>Formatted = ''Alice A'', FamilyName = ''A'', GivenName = ''Alice''\<rparr>,
             ur_Title = ''Engineer'', ur_Organization = ''R and D'',
             ur_DeactivationTimestamp = None\<rparr>"

definition bob :: UserRecord where
  "bob = \<lparr>ur_SCIMID = ''def-456'', ur_Email = ''bob@example.org'', ur_Status = ''active'',
           ur_Name = \<lparr>Formatted = ''Bob B'', FamilyName = ''B'', GivenName = ''Bob''\<rparr>,
           ur_Title = ''Analyst'', ur_Organization = ''Finance'',
           ur_DeactivationTimestamp = None\<rparr>"

definition mirror0 :: world where
  "mirror0 = world0\<lparr>users_file := Holds [(''alice@example.org'', alice), (''bob@example.org'', bob)],
                     groups_file := Holds [(''staff'', \<lparr>gr_SCIMID = ''grp-1''\<rparr>)]\<rparr>"

definition queue_done :: "JobTask list" where
  "queue_done =
     [\<lparr>jt_Type = ''deactivate'', jt_Target = ''alice@example.org'', jt_Data = JNull,
        jt_Status = ''completed''\<rparr>,
      \<lparr>jt_Type = ''add-to-group'', jt_Target = ''bob@example.org'', jt_Data = JStr ''staff'',
        jt_Status = ''completed''\<rparr>]"

definition world_done :: world where
  "world_done = mirror0\<lparr>queue_file := Holds queue_done\<rparr>"

definition task_remove :: JobTask where
  "task_remove = \<lparr>jt_Type = ''remove-from-group'', jt_Target = ''alice@example.org'',
                   jt_Data = JStr ''staff'', jt_Status = ''pending''\<rparr>"

text \<open>
  A cooperative environment: the context is never cancelled, every request can be built
  and is answered with a readable 2xx response, and the disk accepts every write.
\<close>

definition never_cancelled :: "env \<Rightarrow> bool" where
  "never_cancelled E \<longleftrightarrow> (\<forall>t. ctx E t = CtxLive)"

definition remote_ok :: "env \<Rightarrow> bool" where
  "remote_ok E \<longleftrightarrow>
     (\<forall>u. url_ok E u) \<and>
     (\<forall>t r. \<exists>st b. respond E t r = Response st (BodyBytes b) \<and> 200 \<le> st \<and> st < 300)"

definition disk_ok :: "env \<Rightarrow> bool" where
  "disk_ok E \<longleftrightarrow> (\<forall>t. disk E t = WriteOk)"

text \<open>
  A task that needs only a cooperative environment to succeed: its target is in the
  mirror and its payload fits its kind.
\<close>

definition task_ok :: "UserRecord gomap \<Rightarrow> GroupRecord gomap \<Rightarrow> JobTask \<Rightarrow> bool" where
  "task_ok us gs task \<longleftrightarrow>
     map_of us (jt_Target task) \<noteq> None \<and>
     (if jt_Type task = ''update'' then
        (case jt_Data task of JObj m \<Rightarrow> m \<noteq> [] | _ \<Rightarrow> False)
      else if jt_Type task = ''deactivate'' then True
      else if jt_Type task = ''add-to-group'' \<or> jt_Type task = ''remove-from-group'' then
        (case jt_Data task of JStr g \<Rightarrow> map_of gs g \<noteq> None | _ \<Rightarrow> False)
      else False)"

text \<open>An update task whose payload names a new, different \<open>userName\<close>.\<close>

definition renames :: "JobTask \<Rightarrow> bool" where
  "renames task \<longleftrightarrow>
     jt_Type task = ''update'' \<and>
     (case jt_Data task of
        JObj m \<Rightarrow>
          list_ex (\<lambda>kv. fst kv = ''userName'' \<and>
                         (case snd kv of JStr un \<Rightarrow> un \<noteq> [] \<and> un \<noteq> jt_Target task | _ \<Rightarrow> False)) m
      | _ \<Rightarrow> False)"

text \<open>
  The precondition failures of a task: unknown kind, user missing from the mirror,
  payload of the wrong shape or empty, group missing from the mirror.
\<close>

definition precondition_failure :: "UserRecord gomap \<Rightarrow> GroupRecord gomap \<Rightarrow> JobTask \<Rightarrow> bool" where
  "precondition_failure us gs task \<longleftrightarrow>
     (if jt_Type task = ''update'' then
        map_of us (jt_Target task) = None \<or>
        (case jt_Data task of JObj m \<Rightarrow> m = [] | _ \<Rightarrow> True)
      else if jt_Type task = ''deactivate'' then map_of us (jt_Target task) = None
      else if jt_Type task = ''add-to-group'' \<or> jt_Type task = ''remove-from-group'' then
        map_of us (jt_Target task) = None \<or>
        (case jt_Data task of JStr g \<Rightarrow> map_of gs g = None | _ \<Rightarrow> True)
      else True)"

text \<open>
  What a run without shutdown signal makes of a task: a task that is not pending stays as
  it is, a pending one ends completed or failed.
\<close>

definition settled :: "JobTask \<Rightarrow> JobTask \<Rightarrow> bool" where
  "settled t t' \<longleftrightarrow>
     (if jt_Status t = ''pending''
      then t' = t\<lparr>jt_Status := ''completed''\<rparr> \<or> t' = t\<lparr>jt_Status := ''failed''\<rparr>
      else t' = t)"

text \<open>The audit line the processor writes for a task that failed with an error.\<close>

definition failure_event :: "env \<Rightarrow> nat \<Rightarrow> JobTask \<Rightarrow> err \<Rightarrow> AuditEvent" where
  "failure_event E t task e =
     \<lparr>ae_Timestamp = clock E t, ae_UseCase = ''ProcessBatch'', ae_Target = jt_Target task,
        ae_Status = ''error'', ae_Details = ''Task failed'',
        ae_Args = [ArgStr ''error'', ArgErr e]\<rparr>"

text \<open>
  A queue of three pending tasks against the mirror \<open>mirror0\<close>; the second names a user
  the mirror does not have.
\<close>

definition task_a :: JobTask where
  "task_a = \<lparr>jt_Type = ''deactivate'', jt_Target = ''alice@example.org'', jt_Data = JNull,
              jt_Status = ''pending''\<rparr>"

definition task_ghost :: JobTask where
  "task_ghost = \<lparr>jt_Type = ''update'', jt_Target = ''ghost@example.org'',
                  jt_Data = JObj [(''title'', JStr ''Director'')], jt_Status = ''pending''\<rparr>"

definition task_b :: JobTask where
  "task_b = \<lparr>jt_Type = ''add-to-group'', jt_Target = ''bob@example.org'',
              jt_Data = JStr ''staff'', jt_Status = ''pending''\<rparr>"

definition world_three :: world where
  "world_three = mirror0\<lparr>queue_file := Holds [task_a, task_ghost, task_b]\<rparr>"




section \<open>Properties\<close>

subsection \<open>Transport\<close>

lemmas prims = ctx_Err_def HTTPClient_Do_def bump_def time_Sleep_def rand_Intn_def Let_def

lemma loop_DoError:
  assumes "attempt < maxRetries" "ctx E (tick w) = CtxLive"
    "respond E (Suc (tick w)) (cloneReq E req) = DoError e"
  shows "doRequestLoop E req attempt lastErr w =
         doRequestLoop E req (Suc attempt) (Some (NetError e))
           (w\<lparr>tick := Suc (Suc (tick w)),
               net_trace := net_trace w @ [Exchange (cloneReq E req) (DoError e),
                                           Sleep (500 * millisecond)]\<rparr>)"
  by (subst doRequestLoop.simps) (simp add: assms prims)

lemma loop_retry_status:
  assumes "attempt < maxRetries" "ctx E (tick w) = CtxLive"
    "respond E (Suc (tick w)) (cloneReq E req) = Response st rd" "st = 429 \<or> st \<ge> 500"
  shows "doRequestLoop E req attempt lastErr w =
         doRequestLoop E req (Suc attempt) (Some (ApiStatus st))
           (w\<lparr>tick := Suc (Suc (Suc (tick w))),
               net_trace := net_trace w @ [Exchange (cloneReq E req) (Response st rd),
                 Sleep (backoff attempt + int (rand E (Suc (Suc (tick w))) mod 1000) * millisecond)]\<rparr>)"
  by (subst doRequestLoop.simps) (use assms in \<open>auto simp add: prims\<close>)

lemma loop_terminal:
  assumes "attempt < maxRetries" "ctx E (tick w) = CtxLive"
    "respond E (Suc (tick w)) (cloneReq E req) = Response st rd" "\<not> (st = 429 \<or> st \<ge> 500)"
  shows "doRequestLoop E req attempt lastErr w =
         ((case rd of
             ReadError e \<Rightarrow> Inl (ReadBodyFailed e)
           | BodyBytes body \<Rightarrow>
               if st = 204 then Inr []
               else if 200 \<le> st \<and> st < 300 then Inr body
               else Inl (NonRetryableStatus st body)),
          w\<lparr>tick := Suc (Suc (tick w)),
             net_trace := net_trace w @ [Exchange (cloneReq E req) (Response st rd)]\<rparr>)"
  by (subst doRequestLoop.simps) (use assms in \<open>auto simp add: prims split: body_read.splits\<close>)

lemma loop_cancelled:
  assumes "attempt < maxRetries" "ctx E (tick w) \<noteq> CtxLive"
  shows "doRequestLoop E req attempt lastErr w =
         (Inl (if ctx E (tick w) = CtxCanceled then Canceled else DeadlineExceeded),
          w\<lparr>tick := Suc (tick w)\<rparr>)"
  by (subst doRequestLoop.simps) (use assms in \<open>auto simp add: prims split: ctx_state.splits\<close>)

lemma loop_retry_step:
  assumes live: "\<forall>t. ctx E t = CtxLive"
    and retr: "\<forall>t. retryable (respond E t (cloneReq E req))"
    and lt: "attempt < maxRetries"
  shows "\<exists>out d w'. doRequestLoop E req attempt lastErr w
            = doRequestLoop E req (Suc attempt) (Some (cause out)) w'
          \<and> net_trace w' = net_trace w @ [Exchange (cloneReq E req) out, Sleep d]
          \<and> retryable out \<and> retry_sleep attempt out d"
proof (cases "respond E (Suc (tick w)) (cloneReq E req)")
  case (DoError e)
  from loop_DoError [OF lt _ DoError, of lastErr] live
  show ?thesis
    by (intro exI [of _ "DoError e"] exI [of _ "500 * millisecond"] exI)
       (auto simp add: cause_def retryable_def retry_sleep_def)
next
  case (Response st rd)
  from retr have "retryable (respond E (Suc (tick w)) (cloneReq E req))" by blast
  with Response have st: "st = 429 \<or> st \<ge> 500" by (simp add: retryable_def)
  from loop_retry_status [OF lt _ Response st, of lastErr] live
  show ?thesis
    by (intro exI [of _ "Response st rd"]
          exI [of _ "backoff attempt + int (rand E (Suc (Suc (tick w))) mod 1000) * millisecond"] exI)
       (auto simp add: cause_def retryable_def retry_sleep_def st
          intro!: exI [of _ "rand E (Suc (Suc (tick w))) mod 1000"])
qed

lemma loop_end: "doRequestLoop E req maxRetries lastErr w = (Inl (RetriesExhausted maxRetries lastErr), w)"
  by (subst doRequestLoop.simps) simp

lemma backoff_values:
  "map backoff [0, 1, 2, 3] = [1000000000, 2000000000, 4000000000, 8000000000]"
  by (simp add: backoff_def baseBackoff_def second_ns_def millisecond_def)

lemma backoff_mono: "backoff i \<le> backoff (Suc i)"
  by (simp add: backoff_def baseBackoff_def second_ns_def millisecond_def)

text \<open>
  Claim C3 (retry exhaustion and backoff monotonicity). When the context stays live and
  every attempt of a request fails retryably, \<open>doRequestWithRetry\<close> makes exactly four
  exchanges, each followed by its sleep, and fails with the exhausted-retries error that
  carries the maximum of 4 and the cause of the last attempt. After a response with
  status 429 or at least 500 on attempt \<open>i\<close> (counted from 0) the sleep is
  \<open>backoff i\<close> plus a jitter below one second, and \<open>backoff\<close> is 1s, 2s, 4s, 8s on the
  four attempts and never decreases from one attempt to the next.
\<close>

theorem doRequestWithRetry_exhausts:
  assumes live: "\<forall>t. ctx E t = CtxLive"
    and retr: "\<forall>t. retryable (respond E t (cloneReq E req))"
  shows "(\<exists>o0 d0 o1 d1 o2 d2 o3 d3.
            fst (doRequestWithRetry E req w) = Inl (RetriesExhausted 4 (Some (cause o3)))
          \<and> net_trace (snd (doRequestWithRetry E req w)) =
              net_trace w @
              [Exchange (cloneReq E req) o0, Sleep d0, Exchange (cloneReq E req) o1, Sleep d1,
               Exchange (cloneReq E req) o2, Sleep d2, Exchange (cloneReq E req) o3, Sleep d3]
          \<and> retry_sleep 0 o0 d0 \<and> retry_sleep 1 o1 d1 \<and> retry_sleep 2 o2 d2
          \<and> retry_sleep 3 o3 d3)
       \<and> map backoff [0, 1, 2, 3] = [1000000000, 2000000000, 4000000000, 8000000000]
       \<and> (\<forall>i. backoff i \<le> backoff (Suc i))"
proof -
  have m: "maxRetries = 4" by (simp add: maxRetries_def)
  obtain o0 d0 w1 where s0:
    "doRequestLoop E req 0 None w = doRequestLoop E req (Suc 0) (Some (cause o0)) w1"
    "net_trace w1 = net_trace w @ [Exchange (cloneReq E req) o0, Sleep d0]"
    "retry_sleep 0 o0 d0"
    using loop_retry_step [OF live retr, of 0 None w] m by auto
  obtain o1 d1 w2 where s1:
    "doRequestLoop E req (Suc 0) (Some (cause o0)) w1
       = doRequestLoop E req (Suc (Suc 0)) (Some (cause o1)) w2"
    "net_trace w2 = net_trace w1 @ [Exchange (cloneReq E req) o1, Sleep d1]"
    "retry_sleep (Suc 0) o1 d1"
    using loop_retry_step [OF live retr, of "Suc 0" "Some (cause o0)" w1] m by auto
  obtain o2 d2 w3 where s2:
    "doRequestLoop E req (Suc (Suc 0)) (Some (cause o1)) w2
       = doRequestLoop E req (Suc (Suc (Suc 0))) (Some (cause o2)) w3"
    "net_trace w3 = net_trace w2 @ [Exchange (cloneReq E req) o2, Sleep d2]"
    "retry_sleep (Suc (Suc 0)) o2 d2"
    using loop_retry_step [OF live retr, of "Suc (Suc 0)" "Some (cause o1)" w2] m by auto
  obtain o3 d3 w4 where s3:
    "doRequestLoop E req (Suc (Suc (Suc 0))) (Some (cause o2)) w3
       = doRequestLoop E req (Suc (Suc (Suc (Suc 0)))) (Some (cause o3)) w4"
    "net_trace w4 = net_trace w3 @ [Exchange (cloneReq E req) o3, Sleep d3]"
    "retry_sleep (Suc (Suc (Suc 0))) o3 d3"
    using loop_retry_step [OF live retr, of "Suc (Suc (Suc 0))" "Some (cause o2)" w3] m by auto
  have four: "Suc (Suc (Suc (Suc 0))) = maxRetries" by (simp add: m)
  have res: "doRequestWithRetry E req w = (Inl (RetriesExhausted 4 (Some (cause o3))), w4)"
    unfolding doRequestWithRetry_def s0(1) s1(1) s2(1) s3(1) four loop_end
    by (simp add: m)
  have tr: "net_trace w4 = net_trace w @
              [Exchange (cloneReq E req) o0, Sleep d0, Exchange (cloneReq E req) o1, Sleep d1,
               Exchange (cloneReq E req) o2, Sleep d2, Exchange (cloneReq E req) o3, Sleep d3]"
    by (simp add: s0(2) s1(2) s2(2) s3(2))
  have sl: "retry_sleep 1 o1 d1" "retry_sleep 2 o2 d2" "retry_sleep 3 o3 d3"
    using s1(3) s2(3) s3(3) by (simp_all add: numeral_2_eq_2 numeral_3_eq_3)
  have "\<exists>o0 d0 o1 d1 o2 d2 o3 d3.
            fst (doRequestWithRetry E req w) = Inl (RetriesExhausted 4 (Some (cause o3)))
          \<and> net_trace (snd (doRequestWithRetry E req w)) =
              net_trace w @
              [Exchange (cloneReq E req) o0, Sleep d0, Exchange (cloneReq E req) o1, Sleep d1,
               Exchange (cloneReq E req) o2, Sleep d2, Exchange (cloneReq E req) o3, Sleep d3]
          \<and> retry_sleep 0 o0 d0 \<and> retry_sleep 1 o1 d1 \<and> retry_sleep 2 o2 d2
          \<and> retry_sleep 3 o3 d3"
    using res tr s0(3) sl by (intro exI [of _ o0] exI [of _ d0] exI [of _ o1] exI [of _ d1]
        exI [of _ o2] exI [of _ d2] exI [of _ o3] exI [of _ d3]) simp
  then show ?thesis using backoff_values backoff_mono by blast
qed

text \<open>The hypotheses of C3 hold for a service that always answers 503.\<close>

theorem doRequestWithRetry_exhausts_witness:
  "(\<forall>t. ctx env_503 t = CtxLive)
   \<and> (\<forall>t. retryable (respond env_503 t (cloneReq env_503 req0)))
   \<and> (\<exists>c. fst (doRequestWithRetry env_503 req0 world0) = Inl (RetriesExhausted 4 (Some c)))"
proof -
  have h1: "\<forall>t. ctx env_503 t = CtxLive" by (simp add: env_503_def env0_def)
  have h2: "\<forall>t. retryable (respond env_503 t (cloneReq env_503 req0))"
    by (simp add: env_503_def env0_def retryable_def)
  from doRequestWithRetry_exhausts [OF h1 h2, of world0] h1 h2 show ?thesis by blast
qed

text \<open>
  Claim C4 (transport outcome classification), amended. When an attempt receives a
  response whose status is neither 429 nor at least 500, the transport ends there with
  no further exchange: if reading the body fails it fails with the read error, whatever
  the status; otherwise it succeeds with an empty body for 204, succeeds with the body
  verbatim for any other status in [200,300), and fails for every other status with an
  error carrying the status code and the body.
\<close>

theorem transport_classification:
  assumes "attempt < maxRetries" and "ctx E (tick w) = CtxLive"
    and "respond E (Suc (tick w)) (cloneReq E req) = Response st rd"
    and "st \<noteq> 429" and "st < 500"
  shows "fst (doRequestLoop E req attempt lastErr w) =
           (case rd of
              ReadError e \<Rightarrow> Inl (ReadBodyFailed e)
            | BodyBytes body \<Rightarrow>
                if st = 204 then Inr []
                else if 200 \<le> st \<and> st < 300 then Inr body
                else Inl (NonRetryableStatus st body))
       \<and> net_trace (snd (doRequestLoop E req attempt lastErr w)) =
           net_trace w @ [Exchange (cloneReq E req) (Response st rd)]"
  using loop_terminal [OF assms(1,2,3), of lastErr] assms(4,5) by simp

text \<open>The hypotheses of C4 hold for a first attempt answered 404.\<close>

theorem transport_classification_witness:
  "0 < maxRetries \<and> ctx env_404 (tick world0) = CtxLive
   \<and> respond env_404 (Suc (tick world0)) (cloneReq env_404 req0)
       = Response 404 (BodyBytes ''no such user'')
   \<and> (404::int) \<noteq> 429 \<and> (404::int) < 500
   \<and> fst (doRequestLoop env_404 req0 0 None world0)
       = Inl (NonRetryableStatus 404 ''no such user'')"
proof -
  have h1: "0 < maxRetries" by (simp add: maxRetries_def)
  have h2: "ctx env_404 (tick world0) = CtxLive" by (simp add: env_404_def env0_def)
  have h3: "respond env_404 (Suc (tick world0)) (cloneReq env_404 req0)
              = Response 404 (BodyBytes ''no such user'')"
    by (simp add: env_404_def env0_def)
  have h4: "(404::int) \<noteq> 429" and h5: "(404::int) < 500" by simp_all
  from transport_classification [OF h1 h2 h3 h4 h5, of None] h1 h2 h3
  show ?thesis by simp
qed

text \<open>
  C4 as stated fails: a response with status 204 whose body cannot be read makes the
  transport fail, not succeed with an empty body.
\<close>

theorem transport_204_unread_counterexample:
  "respond env_204_cut (Suc (tick world0)) (cloneReq env_204_cut req0)
     = Response 204 (ReadError ''unexpected EOF'')
   \<and> fst (doRequestWithRetry env_204_cut req0 world0) = Inl (ReadBodyFailed ''unexpected EOF'')
   \<and> fst (doRequestWithRetry env_204_cut req0 world0) \<noteq> Inr []"
proof -
  have h1: "0 < maxRetries" by (simp add: maxRetries_def)
  have h2: "ctx env_204_cut (tick world0) = CtxLive" by (simp add: env_204_cut_def env0_def)
  have h3: "respond env_204_cut (Suc (tick world0)) (cloneReq env_204_cut req0)
              = Response 204 (ReadError ''unexpected EOF'')"
    by (simp add: env_204_cut_def env0_def)
  from loop_terminal [OF h1 h2 h3, of None] h3 show ?thesis
    by (simp add: doRequestWithRetry_def)
qed

subsection \<open>What the transport leaves alone\<close>

lemma net_only_refl [simp]: "net_only w w"
  unfolding net_only_def by (rule exI [of _ "tick w"], rule exI [of _ "[]"]) simp

lemma net_only_trans:
  assumes "net_only w w'" and "net_only w' w''"
  shows "net_only w w''"
proof -
  from assms(1) obtain t evs where 1: "w' = w\<lparr>tick := t, net_trace := net_trace w @ evs\<rparr>"
    unfolding net_only_def by blast
  from assms(2) obtain t' evs' where
    2: "w'' = w'\<lparr>tick := t', net_trace := net_trace w' @ evs'\<rparr>"
    unfolding net_only_def by blast
  have "w'' = w\<lparr>tick := t', net_trace := net_trace w @ (evs @ evs')\<rparr>"
    using 1 2 by simp
  then show ?thesis unfolding net_only_def by blast
qed

lemma net_only_files:
  assumes "net_only w w'"
  shows "users_file w' = users_file w" "groups_file w' = groups_file w"
    "queue_file w' = queue_file w" "archive w' = archive w" "audit_log w' = audit_log w"
  using assms unfolding net_only_def by auto

lemma net_only_trace: "net_only w w' \<Longrightarrow> \<exists>evs. net_trace w' = net_trace w @ evs"
  unfolding net_only_def by auto

lemma net_only_tick [simp]: "net_only w (w\<lparr>tick := t\<rparr>)"
  unfolding net_only_def by (rule exI [of _ t], rule exI [of _ "[]"]) simp

lemma net_only_step [simp]: "net_only w (w\<lparr>tick := t, net_trace := net_trace w @ evs\<rparr>)"
  unfolding net_only_def by blast

lemma doRequestLoop_net_only: "net_only w (snd (doRequestLoop E req attempt lastErr w))"
proof (induction "maxRetries - attempt" arbitrary: attempt lastErr w)
  case 0
  then have "\<not> attempt < maxRetries" by simp
  then show ?case by (subst doRequestLoop.simps) simp
next
  case (Suc n)
  then have lt: "attempt < maxRetries" and n: "n = maxRetries - Suc attempt" by simp_all
  show ?case
  proof (cases "ctx E (tick w) = CtxLive")
    case False
    from loop_cancelled [OF lt False] show ?thesis by simp
  next
    case live: True
    show ?thesis
    proof (cases "respond E (Suc (tick w)) (cloneReq E req)")
      case (DoError e)
      show ?thesis
        unfolding loop_DoError [OF lt live DoError]
        by (rule net_only_trans [OF _ Suc.hyps(1) [OF n]]) simp
    next
      case (Response st rd)
      show ?thesis
      proof (cases "st = 429 \<or> st \<ge> 500")
        case True
        show ?thesis
          unfolding loop_retry_status [OF lt live Response True]
          by (rule net_only_trans [OF _ Suc.hyps(1) [OF n]]) simp
      next
        case False
        show ?thesis
          unfolding loop_terminal [OF lt live Response False] by simp
      qed
    qed
  qed
qed

lemma doRequestWithRetry_net_only: "net_only w (snd (doRequestWithRetry E req w))"
  by (simp add: doRequestWithRetry_def doRequestLoop_net_only)

lemma doRequestWithRetry_net_onlyD: "doRequestWithRetry E req w = (r, w') \<Longrightarrow> net_only w w'"
  using doRequestWithRetry_net_only [of w E req] by simp

lemma PatchUser_net_only: "net_only w (snd (PatchUser E scimID ops w))"
  by (auto simp add: PatchUser_def split: sum.splits prod.splits
      dest: doRequestWithRetry_net_onlyD)

lemma PatchGroup_net_only: "net_only w (snd (PatchGroup E scimID ops w))"
  by (auto simp add: PatchGroup_def split: sum.splits prod.splits
      dest: doRequestWithRetry_net_onlyD)

lemma DeleteUser_net_only: "net_only w (snd (DeleteUser E scimID w))"
  by (auto simp add: DeleteUser_def split: sum.splits prod.splits
      dest: doRequestWithRetry_net_onlyD)

subsection \<open>Batch processor: what the run around the loop leaves alone\<close>

lemma saveQueue_frame [simp]:
  "net_trace (saveQueue E q w) = net_trace w" "users_file (saveQueue E q w) = users_file w"
  "groups_file (saveQueue E q w) = groups_file w" "audit_log (saveQueue E q w) = audit_log w"
  "archive (saveQueue E q w) = archive w" "tick (saveQueue E q w) = Suc (tick w)"
  by (simp_all add: saveQueue_def os_WriteFile_def bump_def split: write_outcome.splits)

lemma ctx_Err_world [simp]: "snd (ctx_Err E w) = bump w"
  by (simp add: ctx_Err_def split: ctx_state.splits)

lemma bump_frame [simp]:
  "net_trace (bump w) = net_trace w" "users_file (bump w) = users_file w"
  "groups_file (bump w) = groups_file w" "audit_log (bump w) = audit_log w"
  "archive (bump w) = archive w" "queue_file (bump w) = queue_file w"
  "tick (bump w) = Suc (tick w)"
  by (simp_all add: bump_def)

lemma startBatch_Inl:
  assumes "startBatch E w = Inl w1"
  shows "w1 = w \<or> w1 = bump w"
  using assms
  by (auto simp add: startBatch_def NewStore_def
      split: sum.splits prod.splits option.splits write_outcome.splits)

lemma startBatch_Inr:
  assumes "startBatch E w = Inr (jobQueue, us, gs, w1)"
  shows "w1 = bump w" "load_source E w = Inr jobQueue" "LoadUsers w = Inr us"
    "LoadGroups w = Inr gs" "api_url E \<noteq> []" "api_key E \<noteq> []" "disk E (tick w) = WriteOk"
  using assms
  by (auto simp add: startBatch_def NewStore_def NewClient_def LoadUsers_def LoadGroups_def
      split: sum.splits prod.splits option.splits write_outcome.splits if_splits)

lemma finishBatch_frame [simp]:
  "net_trace (snd (finishBatch E q hc w)) = net_trace w"
  "users_file (snd (finishBatch E q hc w)) = users_file w"
  "groups_file (snd (finishBatch E q hc w)) = groups_file w"
  "audit_log (snd (finishBatch E q hc w)) = audit_log w"
  by (simp_all add: finishBatch_def time_Now_def os_Rename_def Let_def bump_def
      split: write_outcome.splits)

lemma processQueue_no_pending:
  assumes "\<forall>t\<in>set todo. jt_Status t \<noteq> ''pending''"
  shows "\<exists>r w'. processQueue E seen todo us gs n hc w = (r, seen @ todo, us, n, hc, w')
           \<and> r \<noteq> Died \<and> net_trace w' = net_trace w \<and> users_file w' = users_file w
           \<and> groups_file w' = groups_file w \<and> audit_log w' = audit_log w
           \<and> archive w' = archive w"
  using assms
proof (induction todo arbitrary: seen w)
  case Nil
  then show ?case by simp
next
  case (Cons task rest)
  show ?case
  proof (cases "fst (ctx_Err E w)")
    case (Some e)
    then have "ctx_Err E w = (Some e, bump w)"
      by (metis ctx_Err_world prod.collapse)
    then show ?thesis by simp
  next
    case None
    then have c: "ctx_Err E w = (None, bump w)"
      by (metis ctx_Err_world prod.collapse)
    from Cons.prems have skip: "jt_Status task \<noteq> ''pending''"
      and rest: "\<forall>t\<in>set rest. jt_Status t \<noteq> ''pending''" by simp_all
    from Cons.IH [OF rest, of "seen @ [task]" "bump w"] c skip
    show ?thesis by simp
  qed
qed

text \<open>
  Claim C1 (idempotent resume). A run on a checkpoint in which no task is pending (in
  particular one in which every task is completed) makes no exchange on the network and
  leaves \<open>users.json\<close>, \<open>groups.json\<close> and the audit log as they were: the loop passes
  over every task, returning the queue, the in-memory mirror, the task counter and the
  change flag unchanged.
\<close>

theorem idempotent_resume:
  assumes "queue_file w = Holds q" and "\<forall>t\<in>set q. jt_Status t \<noteq> ''pending''"
  shows "net_trace (snd (processBatchCmd E w)) = net_trace w
       \<and> users_file (snd (processBatchCmd E w)) = users_file w
       \<and> groups_file (snd (processBatchCmd E w)) = groups_file w
       \<and> audit_log (snd (processBatchCmd E w)) = audit_log w
       \<and> (\<forall>seen us gs n hc w1. \<exists>r w2.
            processQueue E seen q us gs n hc w1 = (r, seen @ q, us, n, hc, w2))"
proof -
  have loop: "\<forall>seen us gs n hc w1. \<exists>r w2.
            processQueue E seen q us gs n hc w1 = (r, seen @ q, us, n, hc, w2)"
    using processQueue_no_pending [OF assms(2)] by blast
  have frame: "net_trace (snd (processBatchCmd E w)) = net_trace w
       \<and> users_file (snd (processBatchCmd E w)) = users_file w
       \<and> groups_file (snd (processBatchCmd E w)) = groups_file w
       \<and> audit_log (snd (processBatchCmd E w)) = audit_log w"
  proof (cases "startBatch E w")
    case (Inl w1)
    from startBatch_Inl [OF Inl] show ?thesis
      by (auto simp add: processBatchCmd_def Inl)
  next
    case (Inr x)
    then obtain jq us gs w1 where st: "startBatch E w = Inr (jq, us, gs, w1)"
      by (cases x) auto
    from startBatch_Inr [OF st] assms(1) have w1: "w1 = bump w" and jq: "jq = q"
      by (simp_all add: load_source_def)
    from processQueue_no_pending [OF assms(2), of E "[]" us gs 0 False "bump w"]
    obtain r w2 where pq: "processQueue E [] q us gs 0 False (bump w) = (r, q, us, 0, False, w2)"
      and r: "r \<noteq> Died" and fr: "net_trace w2 = net_trace w" "users_file w2 = users_file w"
        "groups_file w2 = groups_file w" "audit_log w2 = audit_log w"
      by auto
    show ?thesis
      using r fr by (cases r) (simp_all add: processBatchCmd_def st jq w1 pq)
  qed
  from frame loop show ?thesis by blast
qed

text \<open>The hypotheses of C1 hold for a checkpoint of two completed tasks.\<close>

theorem idempotent_resume_witness:
  "queue_file world_done = Holds queue_done
   \<and> list_all (\<lambda>t. jt_Status t \<noteq> ''pending'') queue_done
   \<and> net_trace (snd (processBatchCmd env0 world_done)) = []
   \<and> users_file (snd (processBatchCmd env0 world_done))
       = Holds [(''alice@example.org'', alice), (''bob@example.org'', bob)]"
proof -
  have h1: "queue_file world_done = Holds queue_done"
    by (simp add: world_done_def mirror0_def world0_def)
  have h2: "\<forall>t\<in>set queue_done. jt_Status t \<noteq> ''pending''"
    by (simp add: queue_done_def)
  have h3: "list_all (\<lambda>t. jt_Status t \<noteq> ''pending'') queue_done"
    using h2 by (simp add: list_all_iff)
  from idempotent_resume [OF h1 h2, of env0] h1 h3 show ?thesis
    by (simp add: world_done_def mirror0_def world0_def)
qed

subsection \<open>Group membership\<close>

lemma doRequestWithRetry_first_exchange:
  assumes "ctx E (tick w) = CtxLive"
  shows "\<exists>out evs. net_trace (snd (doRequestWithRetry E req w))
           = net_trace w @ Exchange (cloneReq E req) out # evs"
proof -
  have lt: "0 < maxRetries" by (simp add: maxRetries_def)
  show ?thesis
  proof (cases "respond E (Suc (tick w)) (cloneReq E req)")
    case (DoError e)
    let ?w = "w\<lparr>tick := Suc (Suc (tick w)),
               net_trace := net_trace w @ [Exchange (cloneReq E req) (DoError e),
                                           Sleep (500 * millisecond)]\<rparr>"
    obtain evs where "net_trace (snd (doRequestLoop E req (Suc 0) (Some (NetError e)) ?w))
        = net_trace ?w @ evs"
      using net_only_trace [OF doRequestLoop_net_only] by blast
    then show ?thesis
      unfolding doRequestWithRetry_def loop_DoError [OF lt assms DoError] by simp
  next
    case (Response st rd)
    show ?thesis
    proof (cases "st = 429 \<or> st \<ge> 500")
      case True
      let ?w = "w\<lparr>tick := Suc (Suc (Suc (tick w))),
               net_trace := net_trace w @ [Exchange (cloneReq E req) (Response st rd),
                 Sleep (backoff 0 + int (rand E (Suc (Suc (tick w))) mod 1000) * millisecond)]\<rparr>"
      obtain evs where "net_trace (snd (doRequestLoop E req (Suc 0) (Some (ApiStatus st)) ?w))
          = net_trace ?w @ evs"
        using net_only_trace [OF doRequestLoop_net_only] by blast
      then show ?thesis
        unfolding doRequestWithRetry_def loop_retry_status [OF lt assms Response True] by simp
    next
      case False
      show ?thesis
        unfolding doRequestWithRetry_def loop_terminal [OF lt assms Response False] by simp
    qed
  qed
qed

lemma client_call_world:
  "snd (case doRequestWithRetry E req w of
          (Inl e, w1) \<Rightarrow> (Some e, w1)
        | (Inr body, w1) \<Rightarrow> (None, w1)) = snd (doRequestWithRetry E req w)"
  by (cases "doRequestWithRetry E req w") (simp split: sum.splits)

lemma PatchGroup_world:
  assumes "url_ok E (api_url E @ ''/Groups/'' @ scimID)"
  shows "snd (PatchGroup E scimID ops w) =
         snd (doRequestWithRetry E
                \<lparr>Method = ''PATCH'', URL = api_url E @ ''/Groups/'' @ scimID,
                   Body = Some (patch_payload ops), Header = []\<rparr> w)"
  unfolding PatchGroup_def http_NewRequest_def using assms
  by (simp add: client_call_world)

text \<open>
  Claim C8 (membership filter construction). For a remove-from-group task whose user,
  payload and group pass the checks, the handler sends to the group's external id one
  patch with the single operation \<open>remove\<close> whose path is \<open>members[value eq "s"]\<close> for
  the user's external id \<open>s\<close>, and whose value is nil; serialized, the operation has
  the fields \<open>op\<close> and \<open>path\<close> and no \<open>value\<close>. When the request can be built and the
  context is live, that document is the body of the first exchange on the wire.
\<close>

theorem membership_remove_filter:
  assumes "map_of userStore (jt_Target task) = Some user"
    and "jt_Data task = JStr groupName"
    and "map_of groupStore groupName = Some grp"
  shows "handleGroupMembershipTask E userStore groupStore task ''remove'' w =
           PatchGroup E (gr_SCIMID grp)
             [\<lparr>Op = ''remove'',
               Path = ''members[value eq '' @ [CHR 0x22] @ ur_SCIMID user @ [CHR 0x22] @ '']'',
               Value = None\<rparr>] w
       \<and> marshal_SCIMPatchOp
             \<lparr>Op = ''remove'',
               Path = ''members[value eq '' @ [CHR 0x22] @ ur_SCIMID user @ [CHR 0x22] @ '']'',
               Value = None\<rparr>
           = JObj [(''op'', JStr ''remove''),
                   (''path'', JStr (''members[value eq '' @ [CHR 0x22] @ ur_SCIMID user
                                      @ [CHR 0x22] @ '']''))]
       \<and> (jt_Type task = ''remove-from-group'' \<longrightarrow>
            fst (dispatch E userStore groupStore task w)
              = fst (handleGroupMembershipTask E userStore groupStore task ''remove'' w))
       \<and> (url_ok E (api_url E @ ''/Groups/'' @ gr_SCIMID grp) \<and> ctx E (tick w) = CtxLive \<longrightarrow>
            (\<exists>out evs.
               net_trace (snd (handleGroupMembershipTask E userStore groupStore task ''remove'' w))
                 = net_trace w @
                   Exchange
                     (cloneReq E
                        \<lparr>Method = ''PATCH'', URL = api_url E @ ''/Groups/'' @ gr_SCIMID grp,
                           Body = Some (JObj
                             [(''Operations'',
                               JArr [JObj [(''op'', JStr ''remove''),
                                           (''path'', JStr (''members[value eq '' @ [CHR 0x22]
                                              @ ur_SCIMID user @ [CHR 0x22] @ '']''))]]),
                              (''schemas'',
                               JArr [JStr ''urn:ietf:params:scim:api:messages:2.0:PatchOp''])]),
                           Header = []\<rparr>) out # evs))"
proof -
  let ?op = "\<lparr>Op = ''remove'',
               Path = ''members[value eq '' @ [CHR 0x22] @ ur_SCIMID user @ [CHR 0x22] @ '']'',
               Value = None\<rparr>"
  have eq: "handleGroupMembershipTask E userStore groupStore task ''remove'' w =
           PatchGroup E (gr_SCIMID grp) [?op] w"
    using assms by (simp add: handleGroupMembershipTask_def)
  have ms: "marshal_SCIMPatchOp ?op
           = JObj [(''op'', JStr ''remove''),
                   (''path'', JStr (''members[value eq '' @ [CHR 0x22] @ ur_SCIMID user
                                      @ [CHR 0x22] @ '']''))]"
    by (simp add: marshal_SCIMPatchOp_def)
  have dp: "jt_Type task = ''remove-from-group'' \<longrightarrow>
            fst (dispatch E userStore groupStore task w)
              = fst (handleGroupMembershipTask E userStore groupStore task ''remove'' w)"
    by (simp add: dispatch_def split: prod.splits)
  have wire: "url_ok E (api_url E @ ''/Groups/'' @ gr_SCIMID grp) \<and> ctx E (tick w) = CtxLive \<longrightarrow>
            (\<exists>out evs.
               net_trace (snd (handleGroupMembershipTask E userStore groupStore task ''remove'' w))
                 = net_trace w @
                   Exchange
                     (cloneReq E
                        \<lparr>Method = ''PATCH'', URL = api_url E @ ''/Groups/'' @ gr_SCIMID grp,
                           Body = Some (JObj
                             [(''Operations'',
                               JArr [JObj [(''op'', JStr ''remove''),
                                           (''path'', JStr (''members[value eq '' @ [CHR 0x22]
                                              @ ur_SCIMID user @ [CHR 0x22] @ '']''))]]),
                              (''schemas'',
                               JArr [JStr ''urn:ietf:params:scim:api:messages:2.0:PatchOp''])]),
                           Header = []\<rparr>) out # evs)"
  proof
    assume a: "url_ok E (api_url E @ ''/Groups/'' @ gr_SCIMID grp) \<and> ctx E (tick w) = CtxLive"
    let ?req = "\<lparr>Method = ''PATCH'', URL = api_url E @ ''/Groups/'' @ gr_SCIMID grp,
                  Body = Some (patch_payload [?op]), Header = []\<rparr>"
    from a doRequestWithRetry_first_exchange [of E w ?req]
    obtain out evs where
      "net_trace (snd (doRequestWithRetry E ?req w))
         = net_trace w @ Exchange (cloneReq E ?req) out # evs" by blast
    then have "net_trace (snd (PatchGroup E (gr_SCIMID grp) [?op] w))
         = net_trace w @ Exchange (cloneReq E ?req) out # evs"
      using a by (simp add: PatchGroup_world)
    then show "\<exists>out evs.
               net_trace (snd (handleGroupMembershipTask E userStore groupStore task ''remove'' w))
                 = net_trace w @
                   Exchange
                     (cloneReq E
                        \<lparr>Method = ''PATCH'', URL = api_url E @ ''/Groups/'' @ gr_SCIMID grp,
                           Body = Some (JObj
                             [(''Operations'',
                               JArr [JObj [(''op'', JStr ''remove''),
                                           (''path'', JStr (''members[value eq '' @ [CHR 0x22]
                                              @ ur_SCIMID user @ [CHR 0x22] @ '']''))]]),
                              (''schemas'',
                               JArr [JStr ''urn:ietf:params:scim:api:messages:2.0:PatchOp''])]),
                           Header = []\<rparr>) out # evs"
      unfolding eq by (simp add: patch_payload_def marshal_SCIMPatchOp_def)
  qed
  from eq ms dp wire show ?thesis by blast
qed

text \<open>
  The hypotheses of C8 hold for removing the user with external id \<open>abc-123\<close> from a
  group of the mirror: the path is \<open>members[value eq "abc-123"]\<close>.
\<close>

theorem membership_remove_filter_witness:
  \<open>map_of [(''alice@example.org'', alice), (''bob@example.org'', bob)] (jt_Target task_remove)
     = Some alice
   \<and> jt_Data task_remove = JStr ''staff''
   \<and> map_of [(''staff'', \<lparr>gr_SCIMID = ''grp-1''\<rparr>)] ''staff'' = Some \<lparr>gr_SCIMID = ''grp-1''\<rparr>
   \<and> handleGroupMembershipTask env0 [(''alice@example.org'', alice), (''bob@example.org'', bob)]
         [(''staff'', \<lparr>gr_SCIMID = ''grp-1''\<rparr>)] task_remove ''remove'' world0
       = PatchGroup env0 ''grp-1''
           [\<lparr>Op = ''remove'', Path = ''members[value eq "abc-123"]'', Value = None\<rparr>] world0\<close>
proof -
  have h1: "map_of [(''alice@example.org'', alice), (''bob@example.org'', bob)]
              (jt_Target task_remove) = Some alice"
    by (simp add: task_remove_def)
  have h2: "jt_Data task_remove = JStr ''staff''" by (simp add: task_remove_def)
  have h3: "map_of [(''staff'', \<lparr>gr_SCIMID = ''grp-1''\<rparr>)] ''staff'' = Some \<lparr>gr_SCIMID = ''grp-1''\<rparr>"
    by simp
  from membership_remove_filter [OF h1 h2 h3, of env0 world0] h1 h2 h3
  show ?thesis by (simp add: alice_def)
qed

subsection \<open>Iteration order\<close>

lemma pick_order_length [simp]: "length (pick_order f xs) = length xs"
proof (induction f xs rule: pick_order.induct)
  case (1 f xs)
  show ?case
  proof (cases "xs = []")
    case True
    then show ?thesis by (subst pick_order.simps) simp
  next
    case False
    let ?i = "f (length xs) mod length xs"
    from False have i: "?i < length xs" by simp
    have "length (pick_order f (take ?i xs @ drop (Suc ?i) xs)) = length xs - 1"
      using 1 [OF False refl] i by simp
    with False show ?thesis by (subst pick_order.simps) (simp add: Let_def)
  qed
qed

lemma pick_order_set [simp]: "set (pick_order f xs) = set xs"
proof (induction f xs rule: pick_order.induct)
  case (1 f xs)
  show ?case
  proof (cases "xs = []")
    case True
    then show ?thesis by (subst pick_order.simps) simp
  next
    case False
    let ?i = "f (length xs) mod length xs"
    from False have i: "?i < length xs" by simp
    have xs: "xs = take ?i xs @ xs ! ?i # drop (Suc ?i) xs"
      using i by (simp add: id_take_nth_drop)
    have "set (pick_order f (take ?i xs @ drop (Suc ?i) xs)) = set (take ?i xs @ drop (Suc ?i) xs)"
      using 1 [OF False refl] by simp
    then have "set (pick_order f xs) = insert (xs ! ?i) (set (take ?i xs) \<union> set (drop (Suc ?i) xs))"
      using False by (subst pick_order.simps) (simp add: Let_def)
    also have "\<dots> = set (take ?i xs @ xs ! ?i # drop (Suc ?i) xs)" by auto
    also have "\<dots> = set xs" using xs by simp
    finally show ?thesis .
  qed
qed

lemma pick_order_Nil [simp]: "pick_order f [] = []"
  by (subst pick_order.simps) simp

lemma pick_order_eq_Nil [simp]: "pick_order f xs = [] \<longleftrightarrow> xs = []"
  by (metis length_0_conv pick_order_length)

subsection \<open>Calls in a cooperative environment\<close>

lemma doRequestWithRetry_ok:
  assumes "never_cancelled E" and "remote_ok E"
  shows "\<exists>b w'. doRequestWithRetry E req w = (Inr b, w') \<and> net_only w w'"
proof -
  have lt: "0 < maxRetries" by (simp add: maxRetries_def)
  from assms(1) have live: "ctx E (tick w) = CtxLive" by (simp add: never_cancelled_def)
  from assms(2) obtain st b where
    r: "respond E (Suc (tick w)) (cloneReq E req) = Response st (BodyBytes b)"
    and st: "200 \<le> st" "st < 300"
    unfolding remote_ok_def by blast
  from st have nr: "\<not> (st = 429 \<or> st \<ge> 500)" by simp
  show ?thesis
    unfolding doRequestWithRetry_def loop_terminal [OF lt live r nr] using st by simp
qed

lemma PatchUser_ok:
  assumes "never_cancelled E" and "remote_ok E"
  shows "\<exists>w'. PatchUser E scimID ops w = (None, w') \<and> net_only w w'"
proof -
  from assms(2) have u: "url_ok E (api_url E @ ''/Users/'' @ scimID)"
    unfolding remote_ok_def by blast
  from doRequestWithRetry_ok [OF assms] obtain b w' where
    "doRequestWithRetry E \<lparr>Method = ''PATCH'', URL = api_url E @ ''/Users/'' @ scimID,
        Body = Some (patch_payload ops), Header = []\<rparr> w = (Inr b, w')" "net_only w w'"
    by blast
  then show ?thesis using u by (simp add: PatchUser_def http_NewRequest_def)
qed

lemma PatchUser_never_fails:
  assumes "never_cancelled E" and "remote_ok E"
  shows "PatchUser E scimID ops w \<noteq> (Some e, w')"
  using PatchUser_ok [OF assms, of scimID ops w] by auto

lemma PatchGroup_ok:
  assumes "never_cancelled E" and "remote_ok E"
  shows "\<exists>w'. PatchGroup E scimID ops w = (None, w') \<and> net_only w w'"
proof -
  from assms(2) have u: "url_ok E (api_url E @ ''/Groups/'' @ scimID)"
    unfolding remote_ok_def by blast
  from doRequestWithRetry_ok [OF assms] obtain b w' where
    "doRequestWithRetry E \<lparr>Method = ''PATCH'', URL = api_url E @ ''/Groups/'' @ scimID,
        Body = Some (patch_payload ops), Header = []\<rparr> w = (Inr b, w')" "net_only w w'"
    by blast
  then show ?thesis using u by (simp add: PatchGroup_def http_NewRequest_def)
qed

lemma SaveUsers_frame [simp]:
  "net_trace (snd (SaveUsers E us w)) = net_trace w"
  "groups_file (snd (SaveUsers E us w)) = groups_file w"
  "queue_file (snd (SaveUsers E us w)) = queue_file w"
  "archive (snd (SaveUsers E us w)) = archive w"
  "audit_log (snd (SaveUsers E us w)) = audit_log w"
  "tick (snd (SaveUsers E us w)) = Suc (tick w)"
  by (simp_all add: SaveUsers_def os_WriteFile_def bump_def split: write_outcome.splits)

lemma SaveUsers_ok:
  assumes "disk E (tick w) = WriteOk"
  shows "fst (SaveUsers E us w) = None" "users_file (snd (SaveUsers E us w)) = Holds us"
  using assms by (simp_all add: SaveUsers_def os_WriteFile_def bump_def)

lemma logAndAudit_frame:
  assumes "level \<noteq> ''fatal''"
  shows "fst (logAndAudit E useCase target level details args w) = False"
    "net_trace (snd (logAndAudit E useCase target level details args w)) = net_trace w"
    "users_file (snd (logAndAudit E useCase target level details args w)) = users_file w"
    "groups_file (snd (logAndAudit E useCase target level details args w)) = groups_file w"
    "queue_file (snd (logAndAudit E useCase target level details args w)) = queue_file w"
    "archive (snd (logAndAudit E useCase target level details args w)) = archive w"
    "tick (snd (logAndAudit E useCase target level details args w)) = Suc (Suc (tick w))"
  using assms
  by (simp_all add: logAndAudit_def time_Now_def AppendToAuditLog_def bump_def
      split: write_outcome.splits)

lemma logAndAudit_log:
  assumes "level \<noteq> ''fatal''" and "disk E (Suc (tick w)) = WriteOk"
  shows "audit_log (snd (logAndAudit E useCase target level details args w)) =
         audit_log w @ [\<lparr>ae_Timestamp = clock E (tick w), ae_UseCase = useCase,
                          ae_Target = target, ae_Status = level, ae_Details = details,
                          ae_Args = args\<rparr>]"
  using assms
  by (simp add: logAndAudit_def time_Now_def AppendToAuditLog_def bump_def)

subsection \<open>Task handlers\<close>

lemma range_map_simps [simp]:
  "fst (range_map E m w) = pick_order (range_order E (tick w)) m"
  "snd (range_map E m w) = bump w"
  by (simp_all add: range_map_def)

lemma dispatch_precondition:
  assumes "precondition_failure us gs task"
  shows "\<exists>e w'. dispatch E us gs task w = (Some e, us, w') \<and> net_trace w' = net_trace w
           \<and> users_file w' = users_file w \<and> groups_file w' = groups_file w
           \<and> queue_file w' = queue_file w \<and> archive w' = archive w
           \<and> audit_log w' = audit_log w"
  using assms
  by (auto simp add: precondition_failure_def dispatch_def handleUpdateTask_def
      handleDeactivateTask_def handleGroupMembershipTask_def range_map_def
      split: if_splits option.splits json.splits)

lemma fold_update_field_name:
  "snd (fold update_field es (r, n)) = n
   \<or> (''userName'', JStr (snd (fold update_field es (r, n)))) \<in> set es"
proof (induction es arbitrary: r n)
  case Nil
  then show ?case by simp
next
  case (Cons kv es)
  obtain k v where kv: "kv = (k, v)" by (cases kv)
  obtain r' n' where st: "update_field (k, v) (r, n) = (r', n')"
    by (cases "update_field (k, v) (r, n)")
  have n': "n' = n \<or> (k = ''userName'' \<and> v = JStr n')"
    using st unfolding update_field_def by (auto split: json.splits if_splits)
  have step: "fold update_field (kv # es) (r, n) = fold update_field es (r', n')"
    by (simp add: kv st)
  have "snd (fold update_field es (r', n')) = n
        \<or> (''userName'', JStr (snd (fold update_field es (r', n')))) \<in> set ((k, v) # es)"
    using Cons.IH [of r' n'] n' by auto
  then show ?case unfolding step by (simp only: kv)
qed

lemma fold_update_field_keeps:
  "ur_DeactivationTimestamp (fst (fold update_field es (r, n))) = ur_DeactivationTimestamp r
   \<and> ur_Status (fst (fold update_field es (r, n))) = ur_Status r
   \<and> ur_SCIMID (fst (fold update_field es (r, n))) = ur_SCIMID r"
proof (induction es arbitrary: r n)
  case Nil
  then show ?case by simp
next
  case (Cons kv es)
  obtain r' n' where st: "update_field kv (r, n) = (r', n')" by (cases "update_field kv (r, n)")
  have "ur_DeactivationTimestamp r' = ur_DeactivationTimestamp r \<and> ur_Status r' = ur_Status r
        \<and> ur_SCIMID r' = ur_SCIMID r"
    using st unfolding update_field_def by (auto split: prod.splits json.splits if_splits)
  with Cons.IH [of r' n'] show ?case by (simp add: st)
qed

lemma handleGroupMembershipTask_net_only:
  "net_only w (snd (handleGroupMembershipTask E us gs task opType w))"
  by (simp add: handleGroupMembershipTask_def PatchGroup_net_only
      split: option.splits json.splits)

lemma handleDeactivateTask_cases:
  obtains (Fail) e w' where "handleDeactivateTask E us task w = (Some e, us, w')" "net_only w w'"
      "map_of us (jt_Target task) = None \<or>
       (\<exists>r. map_of us (jt_Target task) = Some r \<and>
          PatchUser E (ur_SCIMID r)
            [\<lparr>Op = ''replace'', Path = ''active'', Value = Some (JBool False)\<rparr>] w = (Some e, w'))"
  | (Applied) r w1 where "map_of us (jt_Target task) = Some r"
      "PatchUser E (ur_SCIMID r)
         [\<lparr>Op = ''replace'', Path = ''active'', Value = Some (JBool False)\<rparr>] w = (None, w1)"
      "net_only w w1"
      "handleDeactivateTask E us task w =
         (fst (SaveUsers E
                (AList.update (jt_Target task)
                   (r\<lparr>ur_DeactivationTimestamp := Some (clock E (tick w1)),
                       ur_Status := ''inactive''\<rparr>) us) (bump w1)),
          AList.update (jt_Target task)
            (r\<lparr>ur_DeactivationTimestamp := Some (clock E (tick w1)),
                ur_Status := ''inactive''\<rparr>) us,
          snd (SaveUsers E
                (AList.update (jt_Target task)
                   (r\<lparr>ur_DeactivationTimestamp := Some (clock E (tick w1)),
                       ur_Status := ''inactive''\<rparr>) us) (bump w1)))"
proof (cases "map_of us (jt_Target task)")
  case None
  then have "handleDeactivateTask E us task w = (Some (UserNotFound (jt_Target task)), us, w)"
    by (simp add: handleDeactivateTask_def)
  then show ?thesis using Fail None by simp
next
  case (Some r)
  let ?ops = "[\<lparr>Op = ''replace'', Path = ''active'', Value = Some (JBool False)\<rparr>]"
  obtain res w1 where p: "PatchUser E (ur_SCIMID r) ?ops w = (res, w1)"
    by (cases "PatchUser E (ur_SCIMID r) ?ops w")
  from PatchUser_net_only [of w E "ur_SCIMID r" ?ops] p have no: "net_only w w1" by simp
  show ?thesis
  proof (cases res)
    case None
    have "handleDeactivateTask E us task w =
         (fst (SaveUsers E
                (AList.update (jt_Target task)
                   (r\<lparr>ur_DeactivationTimestamp := Some (clock E (tick w1)),
                       ur_Status := ''inactive''\<rparr>) us) (bump w1)),
          AList.update (jt_Target task)
            (r\<lparr>ur_DeactivationTimestamp := Some (clock E (tick w1)),
                ur_Status := ''inactive''\<rparr>) us,
          snd (SaveUsers E
                (AList.update (jt_Target task)
                   (r\<lparr>ur_DeactivationTimestamp := Some (clock E (tick w1)),
                       ur_Status := ''inactive''\<rparr>) us) (bump w1)))"
      using p None Some
      by (simp add: handleDeactivateTask_def time_Now_def Let_def split: prod.splits)
    with Applied [OF Some _ no] p None show ?thesis by simp
  next
    case (Some e)
    then have "handleDeactivateTask E us task w = (Some e, us, w1)"
      using p \<open>map_of us (jt_Target task) = Some r\<close> by (simp add: handleDeactivateTask_def)
    then show ?thesis
      using Fail no p Some \<open>map_of us (jt_Target task) = Some r\<close> by simp
  qed
qed

lemma handleUpdateTask_cases:
  obtains (Fail) e w' where "handleUpdateTask E us task w = (Some e, us, w')" "net_only w w'"
      "map_of us (jt_Target task) = None
       \<or> (case jt_Data task of JObj m \<Rightarrow> m = [] | _ \<Rightarrow> True)
       \<or> (\<exists>r m. map_of us (jt_Target task) = Some r \<and> jt_Data task = JObj m \<and>
            PatchUser E (ur_SCIMID r)
              (map (\<lambda>(key, value). \<lparr>Op = ''replace'', Path = key, Value = iface value\<rparr>)
                 (pick_order (range_order E (tick w)) m)) (bump w) = (Some e, w'))"
  | (Applied) r m w2 es2 r' nn where "map_of us (jt_Target task) = Some r"
      "jt_Data task = JObj m" "m \<noteq> []"
      "PatchUser E (ur_SCIMID r)
         (map (\<lambda>(key, value). \<lparr>Op = ''replace'', Path = key, Value = iface value\<rparr>)
            (pick_order (range_order E (tick w)) m)) (bump w) = (None, w2)"
      "net_only w w2" "set es2 = set m" "fold update_field es2 (r, []) = (r', nn)"
      "handleUpdateTask E us task w =
         (fst (SaveUsers E
                (if nn \<noteq> [] \<and> nn \<noteq> jt_Target task
                 then AList.update nn r' (AList.delete (jt_Target task) us)
                 else AList.update (jt_Target task) r' us) (bump w2)),
          (if nn \<noteq> [] \<and> nn \<noteq> jt_Target task
           then AList.update nn r' (AList.delete (jt_Target task) us)
           else AList.update (jt_Target task) r' us),
          snd (SaveUsers E
                (if nn \<noteq> [] \<and> nn \<noteq> jt_Target task
                 then AList.update nn r' (AList.delete (jt_Target task) us)
                 else AList.update (jt_Target task) r' us) (bump w2)))"
proof (cases "map_of us (jt_Target task)")
  case None
  then have "handleUpdateTask E us task w = (Some (UserNotFound (jt_Target task)), us, w)"
    by (simp add: handleUpdateTask_def)
  then show ?thesis using Fail None by simp
next
  case (Some r)
  note found = Some
  show ?thesis
  proof (cases "\<exists>m. jt_Data task = JObj m")
    case False
    then have "handleUpdateTask E us task w = (Some UpdateDataNotMap, us, w)"
      using found by (simp add: handleUpdateTask_def split: json.splits)
    moreover have "case jt_Data task of JObj m \<Rightarrow> m = [] | _ \<Rightarrow> True"
      using False by (simp split: json.splits)
    ultimately show ?thesis using Fail by simp
  next
    case True
    then obtain m where m: "jt_Data task = JObj m" by blast
    let ?ops = "map (\<lambda>(key, value). \<lparr>Op = ''replace'', Path = key, Value = iface value\<rparr>)
            (pick_order (range_order E (tick w)) m)"
    show ?thesis
    proof (cases "m = []")
      case True
      then have "handleUpdateTask E us task w = (Some (NoUpdateOps (jt_Target task)), us, bump w)"
        using found m by (simp add: handleUpdateTask_def range_map_def)
      moreover have "net_only w (bump w)" by (simp add: bump_def)
      moreover have "case jt_Data task of JObj m \<Rightarrow> m = [] | _ \<Rightarrow> True"
        using True m by simp
      ultimately show ?thesis using Fail by simp
    next
      case False
      obtain res w2 where p: "PatchUser E (ur_SCIMID r) ?ops (bump w) = (res, w2)"
        by (cases "PatchUser E (ur_SCIMID r) ?ops (bump w)")
      from PatchUser_net_only [of "bump w" E "ur_SCIMID r" ?ops] p
      have "net_only (bump w) w2" by simp
      moreover have "net_only w (bump w)" by (simp add: bump_def)
      ultimately have no: "net_only w w2" by (rule net_only_trans [rotated])
      show ?thesis
      proof (cases res)
        case (Some e)
        then have "handleUpdateTask E us task w = (Some e, us, w2)"
          using found m False p by (simp add: handleUpdateTask_def range_map_def)
        then show ?thesis using Fail no found m p Some by simp
      next
        case None
        let ?es2 = "pick_order (range_order E (tick w2)) m"
        obtain r' nn where f: "fold update_field ?es2 (r, []) = (r', nn)"
          by (cases "fold update_field ?es2 (r, [])")
        have "handleUpdateTask E us task w =
         (fst (SaveUsers E
                (if nn \<noteq> [] \<and> nn \<noteq> jt_Target task
                 then AList.update nn r' (AList.delete (jt_Target task) us)
                 else AList.update (jt_Target task) r' us) (bump w2)),
          (if nn \<noteq> [] \<and> nn \<noteq> jt_Target task
           then AList.update nn r' (AList.delete (jt_Target task) us)
           else AList.update (jt_Target task) r' us),
          snd (SaveUsers E
                (if nn \<noteq> [] \<and> nn \<noteq> jt_Target task
                 then AList.update nn r' (AList.delete (jt_Target task) us)
                 else AList.update (jt_Target task) r' us) (bump w2)))"
          using found m False p None f
          by (simp add: handleUpdateTask_def range_map_def Let_def split: prod.splits)
        with Applied [OF found m False _ no _ f] p None show ?thesis by simp
      qed
    qed
  qed
qed

lemma net_only_save_files:
  assumes "net_only w w1"
  shows "groups_file (snd (SaveUsers E us (bump w1))) = groups_file w"
    "queue_file (snd (SaveUsers E us (bump w1))) = queue_file w"
    "archive (snd (SaveUsers E us (bump w1))) = archive w"
    "audit_log (snd (SaveUsers E us (bump w1))) = audit_log w"
  using net_only_files [OF assms] by simp_all

lemma dispatch_frame:
  "groups_file (snd (snd (dispatch E us gs task w))) = groups_file w
   \<and> queue_file (snd (snd (dispatch E us gs task w))) = queue_file w
   \<and> archive (snd (snd (dispatch E us gs task w))) = archive w
   \<and> audit_log (snd (snd (dispatch E us gs task w))) = audit_log w"
proof -
  have upd: "groups_file (snd (snd (handleUpdateTask E us task w))) = groups_file w
   \<and> queue_file (snd (snd (handleUpdateTask E us task w))) = queue_file w
   \<and> archive (snd (snd (handleUpdateTask E us task w))) = archive w
   \<and> audit_log (snd (snd (handleUpdateTask E us task w))) = audit_log w"
  proof (cases rule: handleUpdateTask_cases [of E us task w])
    case (Fail e w')
    then show ?thesis using net_only_files [of w w'] by simp
  next
    case (Applied r m w2 es2 r' nn)
    show ?thesis unfolding Applied(8) using net_only_save_files [OF Applied(5)] by simp
  qed
  have deact: "groups_file (snd (snd (handleDeactivateTask E us task w))) = groups_file w
   \<and> queue_file (snd (snd (handleDeactivateTask E us task w))) = queue_file w
   \<and> archive (snd (snd (handleDeactivateTask E us task w))) = archive w
   \<and> audit_log (snd (snd (handleDeactivateTask E us task w))) = audit_log w"
  proof (cases rule: handleDeactivateTask_cases [of E us task w])
    case (Fail e w')
    then show ?thesis using net_only_files [of w w'] by simp
  next
    case (Applied r w1)
    show ?thesis unfolding Applied(4) using net_only_save_files [OF Applied(3)] by simp
  qed
  have grp: "\<And>opType. groups_file (snd (handleGroupMembershipTask E us gs task opType w)) = groups_file w
   \<and> queue_file (snd (handleGroupMembershipTask E us gs task opType w)) = queue_file w
   \<and> archive (snd (handleGroupMembershipTask E us gs task opType w)) = archive w
   \<and> audit_log (snd (handleGroupMembershipTask E us gs task opType w)) = audit_log w"
    using net_only_files [OF handleGroupMembershipTask_net_only] by simp
  show ?thesis
    unfolding dispatch_def
    using upd deact grp [of "''add''"] grp [of "''remove''"]
    by (auto split: prod.splits)
qed

lemma dispatch_ok:
  assumes nc: "never_cancelled E" and ro: "remote_ok E" and dk: "disk_ok E"
    and ok: "task_ok us gs task"
  shows "\<exists>us' w'. dispatch E us gs task w = (None, us', w')
           \<and> (\<not> renames task \<longrightarrow> (\<forall>k. map_of us' k = None \<longleftrightarrow> map_of us k = None))"
proof -
  from ok obtain r where found: "map_of us (jt_Target task) = Some r"
    unfolding task_ok_def by auto
  have disk: "\<And>w. disk E (tick w) = WriteOk" using dk by (simp add: disk_ok_def)
  consider (upd) "jt_Type task = ''update''" | (deact) "jt_Type task = ''deactivate''"
    | (grp) "jt_Type task = ''add-to-group'' \<or> jt_Type task = ''remove-from-group''"
    using ok unfolding task_ok_def by (auto split: if_splits)
  then show ?thesis
  proof cases
    case upd
    from ok upd obtain m where m: "jt_Data task = JObj m" "m \<noteq> []"
      unfolding task_ok_def by (auto split: json.splits)
    show ?thesis
    proof (cases rule: handleUpdateTask_cases [of E us task w])
      case (Fail e w')
      from Fail(3) found m PatchUser_never_fails [OF nc ro] have False by auto
      then show ?thesis ..
    next
      case (Applied r0 m0 w2 es2 r' nn)
      have m0: "m0 = m" using Applied(2) m by simp
      have nn: "\<not> renames task \<Longrightarrow> \<not> (nn \<noteq> [] \<and> nn \<noteq> jt_Target task)"
      proof
        assume nr: "\<not> renames task" and a: "nn \<noteq> [] \<and> nn \<noteq> jt_Target task"
        from fold_update_field_name [of es2 r0 "[]"] Applied(7) a
        have "(''userName'', JStr nn) \<in> set es2" by auto
        then have "(''userName'', JStr nn) \<in> set m" using Applied(6) m0 by simp
        then have "renames task"
          using a upd m unfolding renames_def by (force simp add: list_ex_iff)
        with nr show False by simp
      qed
      let ?us' = "if nn \<noteq> [] \<and> nn \<noteq> jt_Target task
                  then AList.update nn r' (AList.delete (jt_Target task) us)
                  else AList.update (jt_Target task) r' us"
      have res: "dispatch E us gs task w =
                  (fst (SaveUsers E ?us' (bump w2)), ?us', snd (SaveUsers E ?us' (bump w2)))"
        unfolding dispatch_def using upd Applied(8) by simp
      have none: "fst (SaveUsers E ?us' (bump w2)) = None"
        by (rule SaveUsers_ok(1) [OF disk])
      have keys: "\<not> renames task \<longrightarrow> (\<forall>k. map_of ?us' k = None \<longleftrightarrow> map_of us k = None)"
      proof
        assume "\<not> renames task"
        from nn [OF this] have "?us' = AList.update (jt_Target task) r' us" by auto
        then show "\<forall>k. map_of ?us' k = None \<longleftrightarrow> map_of us k = None"
          using found by (simp add: update_conv')
      qed
      show ?thesis unfolding res none using keys by blast
    qed
  next
    case deact
    show ?thesis
    proof (cases rule: handleDeactivateTask_cases [of E us task w])
      case (Fail e w')
      from Fail(3) found PatchUser_never_fails [OF nc ro] have False by auto
      then show ?thesis ..
    next
      case (Applied r0 w1)
      let ?us' = "AList.update (jt_Target task)
                    (r0\<lparr>ur_DeactivationTimestamp := Some (clock E (tick w1)),
                        ur_Status := ''inactive''\<rparr>) us"
      have res: "dispatch E us gs task w =
                  (fst (SaveUsers E ?us' (bump w1)), ?us', snd (SaveUsers E ?us' (bump w1)))"
        unfolding dispatch_def using deact Applied(4) by simp
      have none: "fst (SaveUsers E ?us' (bump w1)) = None"
        by (rule SaveUsers_ok(1) [OF disk])
      have keys: "\<forall>k. map_of ?us' k = None \<longleftrightarrow> map_of us k = None"
        using found by (simp add: update_conv')
      show ?thesis unfolding res none using keys by blast
    qed
  next
    case grp
    from ok grp obtain g gr where g: "jt_Data task = JStr g" "map_of gs g = Some gr"
      unfolding task_ok_def by (auto split: json.splits if_splits)
    let ?add = "[\<lparr>Op = ''add'', Path = ''members'',
                   Value = Some (JArr [JObj [(''value'', JStr (ur_SCIMID r))]])\<rparr>]"
    let ?rem = "[\<lparr>Op = ''remove'',
                   Path = ''members[value eq '' @ [CHR 0x22] @ ur_SCIMID r @ [CHR 0x22] @ '']'',
                   Value = None\<rparr>]"
    from PatchGroup_ok [OF nc ro, of "gr_SCIMID gr" ?add w]
    obtain wa where a: "PatchGroup E (gr_SCIMID gr) ?add w = (None, wa)" by blast
    from PatchGroup_ok [OF nc ro, of "gr_SCIMID gr" ?rem w]
    obtain wr where rm: "PatchGroup E (gr_SCIMID gr) ?rem w = (None, wr)" by blast
    have "handleGroupMembershipTask E us gs task ''add'' w = (None, wa)"
      using found g a by (simp add: handleGroupMembershipTask_def)
    moreover have "handleGroupMembershipTask E us gs task ''remove'' w = (None, wr)"
      using found g rm by (simp add: handleGroupMembershipTask_def)
    ultimately have "\<exists>w'. dispatch E us gs task w = (None, us, w')"
      using grp unfolding dispatch_def by auto
    then show ?thesis by blast
  qed
qed

subsection \<open>The loop over the queue\<close>

lemma ctx_Err_live: "ctx E (tick w) = CtxLive \<Longrightarrow> ctx_Err E w = (None, bump w)"
  by (simp add: ctx_Err_def)

lemma logAndAudit_continues:
  assumes "level \<noteq> ''fatal''"
  shows "logAndAudit E useCase target level details args w =
         (False, snd (logAndAudit E useCase target level details args w))"
  using logAndAudit_frame(1) [OF assms, of E useCase target details args w]
  by (cases "logAndAudit E useCase target level details args w") simp

lemma processQueue_failed_step:
  assumes live: "ctx E (tick w) = CtxLive" and pend: "jt_Status task = ''pending''"
    and d: "dispatch E us gs task (bump w) = (Some e, us', w2)"
  shows "\<exists>w4. processQueue E seen (task # rest) us gs n hc w =
           processQueue E (seen @ [task\<lparr>jt_Status := ''failed''\<rparr>]) rest us' gs (Suc n) True w4
         \<and> net_trace w4 = net_trace w2 \<and> users_file w4 = users_file w2
         \<and> groups_file w4 = groups_file w2 \<and> archive w4 = archive w2
         \<and> (Suc n mod 5 \<noteq> 0 \<longrightarrow> queue_file w4 = queue_file w2)
         \<and> (disk E (Suc (tick w2)) = WriteOk \<longrightarrow>
              audit_log w4 = audit_log w2 @ [failure_event E (tick w2) task e])"
proof -
  let ?w3 = "snd (logAndAudit E ''ProcessBatch'' (jt_Target task) ''error'' ''Task failed''
                    [ArgStr ''error'', ArgErr e] w2)"
  let ?w4 = "if Suc n mod 5 = 0
             then saveQueue E (seen @ task\<lparr>jt_Status := ''failed''\<rparr> # rest) ?w3 else ?w3"
  have nf: "''error'' \<noteq> ''fatal''" by simp
  have eq: "processQueue E seen (task # rest) us gs n hc w =
           processQueue E (seen @ [task\<lparr>jt_Status := ''failed''\<rparr>]) rest us' gs (Suc n) True ?w4"
    by (subst processQueue.simps(2), subst logAndAudit_continues [OF nf])
       (simp add: ctx_Err_live [OF live] pend d Let_def)
  have fr: "net_trace ?w4 = net_trace w2" "users_file ?w4 = users_file w2"
    "groups_file ?w4 = groups_file w2" "archive ?w4 = archive w2"
    "Suc n mod 5 \<noteq> 0 \<longrightarrow> queue_file ?w4 = queue_file w2"
    using logAndAudit_frame [OF nf] by simp_all
  have lg: "disk E (Suc (tick w2)) = WriteOk \<longrightarrow>
              audit_log ?w4 = audit_log w2 @ [failure_event E (tick w2) task e]"
    using logAndAudit_log [OF nf] by (simp add: failure_event_def)
  from eq fr lg show ?thesis by blast
qed

lemma processQueue_completed_step:
  assumes live: "ctx E (tick w) = CtxLive" and pend: "jt_Status task = ''pending''"
    and d: "dispatch E us gs task (bump w) = (None, us', w2)"
  shows "\<exists>w4. processQueue E seen (task # rest) us gs n hc w =
           processQueue E (seen @ [task\<lparr>jt_Status := ''completed''\<rparr>]) rest us' gs (Suc n) True w4
         \<and> net_trace w4 = net_trace w2 \<and> users_file w4 = users_file w2
         \<and> groups_file w4 = groups_file w2 \<and> archive w4 = archive w2
         \<and> (Suc n mod 5 \<noteq> 0 \<longrightarrow> queue_file w4 = queue_file w2)
         \<and> (\<exists>evs. audit_log w4 = audit_log w2 @ evs)"
proof -
  let ?msg = "''Task '' @ [CHR 0x27] @ jt_Type task @ [CHR 0x27] @ '' completed successfully.''"
  let ?w3 = "snd (logAndAudit E ''ProcessBatch'' (jt_Target task) ''info'' ?msg [] w2)"
  let ?w4 = "if Suc n mod 5 = 0
             then saveQueue E (seen @ task\<lparr>jt_Status := ''completed''\<rparr> # rest) ?w3 else ?w3"
  have nf: "''info'' \<noteq> ''fatal''" by simp
  have eq: "processQueue E seen (task # rest) us gs n hc w =
           processQueue E (seen @ [task\<lparr>jt_Status := ''completed''\<rparr>]) rest us' gs (Suc n) True ?w4"
    by (subst processQueue.simps(2), subst logAndAudit_continues [OF nf])
       (simp add: ctx_Err_live [OF live] pend d Let_def)
  have fr: "net_trace ?w4 = net_trace w2" "users_file ?w4 = users_file w2"
    "groups_file ?w4 = groups_file w2" "archive ?w4 = archive w2"
    "Suc n mod 5 \<noteq> 0 \<longrightarrow> queue_file ?w4 = queue_file w2"
    using logAndAudit_frame [OF nf] by simp_all
  have "\<exists>evs. audit_log ?w3 = audit_log w2 @ evs"
    by (simp add: logAndAudit_def time_Now_def AppendToAuditLog_def bump_def
        split: write_outcome.splits)
  then have lg: "\<exists>evs. audit_log ?w4 = audit_log w2 @ evs" by simp
  from eq fr lg show ?thesis by blast
qed

lemma processQueue_runs_through:
  assumes nc: "never_cancelled E"
  shows "\<exists>q' us' n' hc' w'. processQueue E seen todo us gs n hc w
            = (Finished, seen @ q', us', n', hc', w') \<and> list_all2 settled todo q'"
proof (induction todo arbitrary: seen us n hc w)
  case Nil
  then show ?case by simp
next
  case (Cons task rest)
  from nc have live: "ctx E (tick w) = CtxLive" by (simp add: never_cancelled_def)
  show ?case
  proof (cases "jt_Status task = ''pending''")
    case False
    from Cons.IH [of "seen @ [task]" us n hc "bump w"]
    obtain q' us' n' hc' w' where
      "processQueue E (seen @ [task]) rest us gs n hc (bump w)
         = (Finished, (seen @ [task]) @ q', us', n', hc', w')" "list_all2 settled rest q'"
      by blast
    then have "processQueue E seen (task # rest) us gs n hc w
         = (Finished, seen @ (task # q'), us', n', hc', w')
         \<and> list_all2 settled (task # rest) (task # q')"
      using False by (simp add: ctx_Err_live [OF live] settled_def)
    then show ?thesis by blast
  next
    case True
    obtain res us1 w2 where d: "dispatch E us gs task (bump w) = (res, us1, w2)"
      by (cases "dispatch E us gs task (bump w)")
    show ?thesis
    proof (cases res)
      case None
      from processQueue_completed_step [OF live True d [unfolded None]]
      obtain w4 where eq: "processQueue E seen (task # rest) us gs n hc w =
           processQueue E (seen @ [task\<lparr>jt_Status := ''completed''\<rparr>]) rest us1 gs (Suc n) True w4"
        by blast
      from Cons.IH [of "seen @ [task\<lparr>jt_Status := ''completed''\<rparr>]" us1 "Suc n" True w4]
      obtain q' us' n' hc' w' where
        "processQueue E (seen @ [task\<lparr>jt_Status := ''completed''\<rparr>]) rest us1 gs (Suc n) True w4
           = (Finished, (seen @ [task\<lparr>jt_Status := ''completed''\<rparr>]) @ q', us', n', hc', w')"
        "list_all2 settled rest q'"
        by blast
      then have "processQueue E seen (task # rest) us gs n hc w
           = (Finished, seen @ (task\<lparr>jt_Status := ''completed''\<rparr> # q'), us', n', hc', w')
           \<and> list_all2 settled (task # rest) (task\<lparr>jt_Status := ''completed''\<rparr> # q')"
        using True eq by (simp add: settled_def)
      then show ?thesis by blast
    next
      case (Some e)
      from processQueue_failed_step [OF live True d [unfolded Some]]
      obtain w4 where eq: "processQueue E seen (task # rest) us gs n hc w =
           processQueue E (seen @ [task\<lparr>jt_Status := ''failed''\<rparr>]) rest us1 gs (Suc n) True w4"
        by blast
      from Cons.IH [of "seen @ [task\<lparr>jt_Status := ''failed''\<rparr>]" us1 "Suc n" True w4]
      obtain q' us' n' hc' w' where
        "processQueue E (seen @ [task\<lparr>jt_Status := ''failed''\<rparr>]) rest us1 gs (Suc n) True w4
           = (Finished, (seen @ [task\<lparr>jt_Status := ''failed''\<rparr>]) @ q', us', n', hc', w')"
        "list_all2 settled rest q'"
        by blast
      then have "processQueue E seen (task # rest) us gs n hc w
           = (Finished, seen @ (task\<lparr>jt_Status := ''failed''\<rparr> # q'), us', n', hc', w')
           \<and> list_all2 settled (task # rest) (task\<lparr>jt_Status := ''failed''\<rparr> # q')"
        using True eq by (simp add: settled_def)
      then show ?thesis by blast
    qed
  qed
qed

lemma absent_target_fails:
  assumes "map_of us (jt_Target task) = None"
  shows "precondition_failure us gs task"
  using assms by (simp add: precondition_failure_def)

lemma task_ok_same_keys:
  assumes "task_ok us gs task" and "\<forall>k. map_of us' k = None \<longleftrightarrow> map_of us k = None"
  shows "task_ok us' gs task"
proof -
  from assms(1) have a: "map_of us (jt_Target task) \<noteq> None"
    and b: "if jt_Type task = ''update'' then
        (case jt_Data task of JObj m \<Rightarrow> m \<noteq> [] | _ \<Rightarrow> False)
      else if jt_Type task = ''deactivate'' then True
      else if jt_Type task = ''add-to-group'' \<or> jt_Type task = ''remove-from-group'' then
        (case jt_Data task of JStr g \<Rightarrow> map_of gs g \<noteq> None | _ \<Rightarrow> False)
      else False"
    unfolding task_ok_def by blast+
  from a assms(2) have "map_of us' (jt_Target task) \<noteq> None" by simp
  with b show ?thesis unfolding task_ok_def by blast
qed

lemma three_tasks:
  assumes nc: "never_cancelled E" and ro: "remote_ok E" and dk: "disk_ok E"
    and p1: "jt_Status t1 = ''pending''" and p2: "jt_Status t2 = ''pending''"
    and p3: "jt_Status t3 = ''pending''"
    and ok1: "task_ok us gs t1" and nr: "\<not> renames t1"
    and absent: "map_of us (jt_Target t2) = None"
    and ok3: "task_ok us gs t3"
  shows "\<exists>e t us' w'. processQueue E [] [t1, t2, t3] us gs 0 False w =
           (Finished,
            [t1\<lparr>jt_Status := ''completed''\<rparr>, t2\<lparr>jt_Status := ''failed''\<rparr>,
             t3\<lparr>jt_Status := ''completed''\<rparr>], us', 3, True, w')
         \<and> failure_event E t t2 e \<in> set (audit_log w')
         \<and> queue_file w' = queue_file w \<and> archive w' = archive w"
proof -
  have live: "\<And>w. ctx E (tick w) = CtxLive" using nc by (simp add: never_cancelled_def)
  have disk: "\<And>t. disk E t = WriteOk" using dk by (simp add: disk_ok_def)
  \<comment> \<open>first task\<close>
  from dispatch_ok [OF nc ro dk ok1, of "bump w"] nr
  obtain us1 wa where d1: "dispatch E us gs t1 (bump w) = (None, us1, wa)"
    and keys: "\<forall>k. map_of us1 k = None \<longleftrightarrow> map_of us k = None" by blast
  from dispatch_frame [of E us gs t1 "bump w"] d1
  have fa: "queue_file wa = queue_file w" "archive wa = archive w" by simp_all
  from processQueue_completed_step [OF live p1 d1, of "[]" "[t2, t3]" 0 False]
  obtain wb where s1: "processQueue E [] [t1, t2, t3] us gs 0 False w =
       processQueue E [t1\<lparr>jt_Status := ''completed''\<rparr>] [t2, t3] us1 gs (Suc 0) True wb"
    and fb: "archive wb = archive wa" "queue_file wb = queue_file wa" by auto
  \<comment> \<open>second task\<close>
  from absent keys have "map_of us1 (jt_Target t2) = None" by simp
  from dispatch_precondition [where E = E and w = "bump wb" and gs = gs,
      OF absent_target_fails [OF this]]
  obtain e wc where d2: "dispatch E us1 gs t2 (bump wb) = (Some e, us1, wc)"
    and fc: "queue_file wc = queue_file (bump wb)" "archive wc = archive (bump wb)" by blast
  from processQueue_failed_step [OF live p2 d2,
      of "[t1\<lparr>jt_Status := ''completed''\<rparr>]" "[t3]" "Suc 0" True] disk
  obtain wd where s2: "processQueue E [t1\<lparr>jt_Status := ''completed''\<rparr>] [t2, t3] us1 gs (Suc 0) True wb =
       processQueue E [t1\<lparr>jt_Status := ''completed''\<rparr>, t2\<lparr>jt_Status := ''failed''\<rparr>] [t3]
         us1 gs (Suc (Suc 0)) True wd"
    and fd: "archive wd = archive wc" "queue_file wd = queue_file wc"
    and ld: "audit_log wd = audit_log wc @ [failure_event E (tick wc) t2 e]" by auto
  \<comment> \<open>third task\<close>
  from dispatch_ok [OF nc ro dk task_ok_same_keys [OF ok3 keys], of "bump wd"]
  obtain us3 we where d3: "dispatch E us1 gs t3 (bump wd) = (None, us3, we)" by blast
  from dispatch_frame [of E us1 gs t3 "bump wd"] d3
  have fe: "queue_file we = queue_file wd" "archive we = archive wd"
    "audit_log we = audit_log wd" by simp_all
  from processQueue_completed_step [OF live p3 d3,
      of "[t1\<lparr>jt_Status := ''completed''\<rparr>, t2\<lparr>jt_Status := ''failed''\<rparr>]" "[]"
         "Suc (Suc 0)" True]
  obtain wf evs where s3:
    "processQueue E [t1\<lparr>jt_Status := ''completed''\<rparr>, t2\<lparr>jt_Status := ''failed''\<rparr>] [t3]
         us1 gs (Suc (Suc 0)) True wd =
       processQueue E [t1\<lparr>jt_Status := ''completed''\<rparr>, t2\<lparr>jt_Status := ''failed''\<rparr>,
                       t3\<lparr>jt_Status := ''completed''\<rparr>] []
         us3 gs (Suc (Suc (Suc 0))) True wf"
    and ff: "archive wf = archive we" "queue_file wf = queue_file we"
    and lf: "audit_log wf = audit_log we @ evs" by auto
  have res: "processQueue E [] [t1, t2, t3] us gs 0 False w =
           (Finished,
            [t1\<lparr>jt_Status := ''completed''\<rparr>, t2\<lparr>jt_Status := ''failed''\<rparr>,
             t3\<lparr>jt_Status := ''completed''\<rparr>], us3, 3, True, wf)"
    unfolding s1 s2 s3 by (simp add: numeral_3_eq_3)
  have ev: "failure_event E (tick wc) t2 e \<in> set (audit_log wf)"
    by (simp add: lf fe ld)
  have fq: "queue_file wf = queue_file w" "archive wf = archive w"
    by (simp_all add: ff fe fd fc fb fa)
  from res ev fq show ?thesis by blast
qed

lemma startBatch_ok:
  assumes "load_source E w = Inr q" "api_url E \<noteq> []" "api_key E \<noteq> []"
    "disk E (tick w) = WriteOk" "users_file w = Holds us" "groups_file w = Holds gs"
  shows "startBatch E w = Inr (q, us, gs, bump w)"
  using assms
  by (simp add: startBatch_def NewClient_def NewStore_def LoadUsers_def LoadGroups_def)

lemma env0_cooperative: "never_cancelled env0" "remote_ok env0" "disk_ok env0"
  by (simp_all add: never_cancelled_def remote_ok_def disk_ok_def env0_def)

text \<open>
  Claim C2 (partial-failure isolation). Four facts. (1) Without a shutdown signal the
  loop runs through any queue: it ends \<open>Finished\<close>, every task that was not pending is
  as it was, and every pending task is completed or failed. (2) A pending task whose
  handler returns an error becomes failed, an audit line with status \<open>error\<close> carrying
  the error is appended, and the loop goes on with the next task. (3) A precondition
  failure (unknown kind, missing user or group, payload of the wrong shape) gives the
  handler's error with no event added to the network trace and the mirror untouched.
  (4) In a cooperative environment a run on a queue of three pending tasks, of which the
  first and third are well formed and the second names a user absent from the mirror,
  returns normally and leaves the checkpoint in place with the statuses completed,
  failed, completed, having written the audit line of the failure.
\<close>

theorem partial_failure_isolation:
  "(never_cancelled E \<longrightarrow>
      (\<exists>q' us' n' hc' w'. processQueue E [] queue us gs 0 False w
           = (Finished, q', us', n', hc', w') \<and> list_all2 settled queue q'))
   \<and> (ctx E (tick w) = CtxLive \<and> jt_Status task = ''pending''
        \<and> dispatch E us gs task (bump w) = (Some e, us1, w2)
        \<and> disk E (Suc (tick w2)) = WriteOk \<longrightarrow>
      (\<exists>w4. processQueue E seen (task # rest) us gs n hc w =
              processQueue E (seen @ [task\<lparr>jt_Status := ''failed''\<rparr>]) rest us1 gs (Suc n) True w4
           \<and> audit_log w4 = audit_log w2 @ [failure_event E (tick w2) task e]))
   \<and> (precondition_failure us gs task \<longrightarrow>
      (\<exists>e' w'. dispatch E us gs task w = (Some e', us, w') \<and> net_trace w' = net_trace w
           \<and> users_file w' = users_file w))
   \<and> (never_cancelled E \<and> remote_ok E \<and> disk_ok E \<and> api_url E \<noteq> [] \<and> api_key E \<noteq> []
        \<and> users_file w = Holds us \<and> groups_file w = Holds gs
        \<and> load_source E w = Inr [t1, t2, t3]
        \<and> jt_Status t1 = ''pending'' \<and> jt_Status t2 = ''pending'' \<and> jt_Status t3 = ''pending''
        \<and> task_ok us gs t1 \<and> \<not> renames t1 \<and> map_of us (jt_Target t2) = None
        \<and> task_ok us gs t3 \<longrightarrow>
      (\<exists>w'. processBatchCmd E w = (Returned, w')
           \<and> queue_file w' = Holds [t1\<lparr>jt_Status := ''completed''\<rparr>, t2\<lparr>jt_Status := ''failed''\<rparr>,
                                    t3\<lparr>jt_Status := ''completed''\<rparr>]
           \<and> archive w' = archive w
           \<and> (\<exists>t e'. failure_event E t t2 e' \<in> set (audit_log w'))))"
proof (intro conjI impI)
  assume "never_cancelled E"
  from processQueue_runs_through [OF this, of "[]" queue us gs 0 False w]
  show "\<exists>q' us' n' hc' w'. processQueue E [] queue us gs 0 False w
           = (Finished, q', us', n', hc', w') \<and> list_all2 settled queue q'" by simp
next
  assume a: "ctx E (tick w) = CtxLive \<and> jt_Status task = ''pending''
        \<and> dispatch E us gs task (bump w) = (Some e, us1, w2)
        \<and> disk E (Suc (tick w2)) = WriteOk"
  then have live: "ctx E (tick w) = CtxLive" and p: "jt_Status task = ''pending''"
    and d: "dispatch E us gs task (bump w) = (Some e, us1, w2)"
    and dk: "disk E (Suc (tick w2)) = WriteOk" by blast+
  from processQueue_failed_step [OF live p d, of seen rest n hc] dk
  show "\<exists>w4. processQueue E seen (task # rest) us gs n hc w =
              processQueue E (seen @ [task\<lparr>jt_Status := ''failed''\<rparr>]) rest us1 gs (Suc n) True w4
           \<and> audit_log w4 = audit_log w2 @ [failure_event E (tick w2) task e]" by blast
next
  assume "precondition_failure us gs task"
  from dispatch_precondition [OF this, of E w]
  show "\<exists>e' w'. dispatch E us gs task w = (Some e', us, w') \<and> net_trace w' = net_trace w
           \<and> users_file w' = users_file w" by blast
next
  assume a: "never_cancelled E \<and> remote_ok E \<and> disk_ok E \<and> api_url E \<noteq> [] \<and> api_key E \<noteq> []
        \<and> users_file w = Holds us \<and> groups_file w = Holds gs
        \<and> load_source E w = Inr [t1, t2, t3]
        \<and> jt_Status t1 = ''pending'' \<and> jt_Status t2 = ''pending'' \<and> jt_Status t3 = ''pending''
        \<and> task_ok us gs t1 \<and> \<not> renames t1 \<and> map_of us (jt_Target t2) = None
        \<and> task_ok us gs t3"
  then have nc: "never_cancelled E" and ro: "remote_ok E" and dk: "disk_ok E" by blast+
  have disk: "\<And>t. disk E t = WriteOk" using dk by (simp add: disk_ok_def)
  from a have st: "startBatch E w = Inr ([t1, t2, t3], us, gs, bump w)"
    by (intro startBatch_ok disk) blast+
  from a three_tasks [OF nc ro dk, of t1 t2 t3 us gs "bump w"]
  obtain e' t us' w1 where pq: "processQueue E [] [t1, t2, t3] us gs 0 False (bump w) =
           (Finished,
            [t1\<lparr>jt_Status := ''completed''\<rparr>, t2\<lparr>jt_Status := ''failed''\<rparr>,
             t3\<lparr>jt_Status := ''completed''\<rparr>], us', 3, True, w1)"
    and ev: "failure_event E t t2 e' \<in> set (audit_log w1)"
    and ar: "archive w1 = archive w" by auto
  let ?q = "[t1\<lparr>jt_Status := ''completed''\<rparr>, t2\<lparr>jt_Status := ''failed''\<rparr>,
             t3\<lparr>jt_Status := ''completed''\<rparr>]"
  have nall: "\<not> allCompleted ?q" by (simp add: allCompleted_def)
  have fin: "finishBatch E ?q True w1 = (Returned, saveQueue E ?q w1)"
    using nall by (simp add: finishBatch_def Let_def)
  have run: "processBatchCmd E w = (Returned, saveQueue E ?q w1)"
    by (simp only: processBatchCmd_def st pq fin sum.case prod.case loop_end.case)
  have qf: "queue_file (saveQueue E ?q w1) = Holds ?q"
    by (simp add: saveQueue_def os_WriteFile_def disk bump_def)
  from run qf ar ev
  show "\<exists>w'. processBatchCmd E w = (Returned, w')
           \<and> queue_file w' = Holds ?q \<and> archive w' = archive w
           \<and> (\<exists>t e'. failure_event E t t2 e' \<in> set (audit_log w'))"
    by (intro exI [of _ "saveQueue E ?q w1"]) auto
qed

text \<open>
  The hypotheses of C2 hold in the cooperative environment for the three-task queue:
  the run leaves the statuses completed, failed, completed in the checkpoint.
\<close>

theorem partial_failure_isolation_witness:
  "never_cancelled env0 \<and> remote_ok env0 \<and> disk_ok env0
   \<and> load_source env0 world_three = Inr [task_a, task_ghost, task_b]
   \<and> task_ok [(''alice@example.org'', alice), (''bob@example.org'', bob)]
        [(''staff'', \<lparr>gr_SCIMID = ''grp-1''\<rparr>)] task_a
   \<and> \<not> renames task_a
   \<and> map_of [(''alice@example.org'', alice), (''bob@example.org'', bob)] (jt_Target task_ghost)
       = None
   \<and> precondition_failure [(''alice@example.org'', alice), (''bob@example.org'', bob)]
        [(''staff'', \<lparr>gr_SCIMID = ''grp-1''\<rparr>)] task_ghost
   \<and> task_ok [(''alice@example.org'', alice), (''bob@example.org'', bob)]
        [(''staff'', \<lparr>gr_SCIMID = ''grp-1''\<rparr>)] task_b
   \<and> queue_file (snd (processBatchCmd env0 world_three))
       = Holds [task_a\<lparr>jt_Status := ''completed''\<rparr>, task_ghost\<lparr>jt_Status := ''failed''\<rparr>,
                task_b\<lparr>jt_Status := ''completed''\<rparr>]"
proof -
  let ?us = "[(''alice@example.org'', alice), (''bob@example.org'', bob)]"
  let ?gs = "[(''staff'', \<lparr>gr_SCIMID = ''grp-1''\<rparr>)]"
  have h: "load_source env0 world_three = Inr [task_a, task_ghost, task_b]"
    "users_file world_three = Holds ?us" "groups_file world_three = Holds ?gs"
    "api_url env0 \<noteq> []" "api_key env0 \<noteq> []"
    by (simp_all add: load_source_def world_three_def mirror0_def world0_def env0_def)
  have t: "task_ok ?us ?gs task_a" "\<not> renames task_a" "map_of ?us (jt_Target task_ghost) = None"
    "task_ok ?us ?gs task_b" "precondition_failure ?us ?gs task_ghost"
    "jt_Status task_a = ''pending''" "jt_Status task_ghost = ''pending''"
    "jt_Status task_b = ''pending''"
    by (simp_all add: task_ok_def renames_def precondition_failure_def task_a_def task_b_def
        task_ghost_def)
  from partial_failure_isolation [of env0 "[]" ?us ?gs world_three task_ghost undefined
      undefined undefined "[]" "[]" 0 False task_a task_ghost task_b]
    env0_cooperative h t
  obtain w' where "processBatchCmd env0 world_three = (Returned, w')"
    "queue_file w' = Holds [task_a\<lparr>jt_Status := ''completed''\<rparr>,
       task_ghost\<lparr>jt_Status := ''failed''\<rparr>, task_b\<lparr>jt_Status := ''completed''\<rparr>]"
    by blast
  with env0_cooperative h t show ?thesis by simp
qed

subsection \<open>Archival\<close>

















end
